theory Spec2Isabelle
  imports Complex_Main "HOL-Library.Multiset"
begin

section \<open>The object model of the charting library\<close>

text \<open>
  ReSubPlot reads primitives off existing figures and redraws them on the axes of one new
  figure. The figures it reads are inputs that it never changes; the figure it builds is
  a mutable object that every function receives by reference. The source figures are
  therefore records of what their getters return, and the composed figure is an explicit
  state (a list of axes, addressed by their index in \<open>fig.axes\<close>) that each function
  takes and returns. An exception is a value \<open>Inl e\<close> of the result type.

  Coordinates are real numbers. Labels are kept as they are given: the library replaces an
  empty label by a private one (\<open>_child3\<close>), and no function below tells the two apart.
  Limits are kept as they are given too: the widening of an interval whose two ends
  coincide is left out.
\<close>

datatype error =
    ValueError
  | IndexError
  | TypeError
  | AttributeError
  | UnboundLocalError

definition bind_err :: "error + 'a \<Rightarrow> ('a \<Rightarrow> error + 'b) \<Rightarrow> error + 'b" where
  "bind_err r f = (case r of Inl e \<Rightarrow> Inl e | Inr x \<Rightarrow> f x)"

type_synonym point = "real \<times> real"

type_synonym rgba = "real \<times> real \<times> real \<times> real"

text \<open>The colour of a line is whatever it was set to: a name or an RGBA tuple.\<close>

datatype color = RGBA rgba | ColorName string

text \<open>
  A line made by \<open>axhline\<close> has its x data in axes coordinates (it spans the axes whatever
  the limits are), one made by \<open>axvline\<close> has its y data in axes coordinates, and one made
  by \<open>plot\<close> has both in data coordinates.
\<close>

datatype transform = TransData | TransXAxes | TransYAxes

record line2d =
  l_xdata :: "real list"
  l_ydata :: "real list"
  l_color :: color
  l_linestyle :: string
  l_linewidth :: real
  l_alpha :: "real option"
  l_label :: string
  l_transform :: transform

record linecollection =
  lc_segments :: "point list list"
  lc_colors :: "rgba list"
  lc_linewidths :: "real list"
  lc_linestyles :: "string list"
  lc_alpha :: "real option"
  lc_label :: string

record polycollection =
  pc_paths :: "point list list"
  pc_facecolors :: "rgba list"
  pc_alpha :: "real option"
  pc_label :: string

text \<open>
  A scatter plot. \<open>sc_mapped\<close> holds the values that the colour map turns into face
  colours when the plot was given values instead of colours.
\<close>

record pathcollection =
  sc_offsets :: "point list"
  sc_sizes :: "real list"
  sc_facecolors :: "rgba list"
  sc_edgecolors :: "rgba list"
  sc_alpha :: "real option"
  sc_label :: string
  sc_mapped :: "real list option"

record rectangle =
  r_x :: real
  r_y :: real
  r_width :: real
  r_height :: real
  r_facecolor :: rgba
  r_edgecolor :: rgba
  r_linewidth :: real
  r_linestyle :: string
  r_alpha :: "real option"
  r_label :: string

text \<open>
  The children of an axes, in the order they were added. \<open>ax.lines\<close>, \<open>ax.collections\<close>
  and \<open>ax.patches\<close> are the children of the matching class, in that order. A patch that
  is not a rectangle has a face colour and a label.
\<close>

datatype artist =
    Line2D line2d
  | LineCollection linecollection
  | PolyCollection polycollection
  | PathCollection pathcollection
  | Rectangle rectangle
  | OtherPatch rgba string

text \<open>
  Containers. Only an errorbar container has the attribute \<open>lines\<close>; its last component
  is the tuple of line collections of the bars.
\<close>

datatype container =
    ErrorbarContainer "line2d option" "line2d list" "linecollection list" string
  | BarContainer "rectangle list" string

datatype handle = HArtist artist | HContainer container

fun artist_label :: "artist \<Rightarrow> string" where
  "artist_label (Line2D l) = l_label l"
| "artist_label (LineCollection c) = lc_label c"
| "artist_label (PolyCollection c) = pc_label c"
| "artist_label (PathCollection c) = sc_label c"
| "artist_label (Rectangle r) = r_label r"
| "artist_label (OtherPatch fc s) = s"

fun container_label :: "container \<Rightarrow> string" where
  "container_label (ErrorbarContainer d c b s) = s"
| "container_label (BarContainer ps s) = s"

fun handle_label :: "handle \<Rightarrow> string" where
  "handle_label (HArtist a) = artist_label a"
| "handle_label (HContainer c) = container_label c"

text \<open>
  \<open>get_legend_handles_labels\<close>: the children and then the containers whose label is not
  empty and does not start with an underscore.
\<close>

definition legend_label :: "string \<Rightarrow> bool" where
  "legend_label s = (case s of [] \<Rightarrow> False | c # _ \<Rightarrow> c \<noteq> CHR ''_'')"

definition legend_handles_labels ::
  "artist list \<Rightarrow> container list \<Rightarrow> handle list \<times> string list" where
  "legend_handles_labels ch co =
     (let hs = filter (\<lambda>h. legend_label (handle_label h)) (map HArtist ch @ map HContainer co)
      in (hs, map handle_label hs))"

text \<open>A source axes: what the getters of an axes of an input figure return.\<close>

record src_axes =
  s_children :: "artist list"
  s_containers :: "container list"
  s_xlabel :: string
  s_ylabel :: string
  s_title :: string
  s_xticks :: "real list"
  s_xticklabels :: "string list"
  s_xlim :: "real \<times> real"
  s_ylim :: "real \<times> real"
  s_position :: "real \<times> real \<times> real \<times> real"
  s_xgroup :: "nat option"
  s_ygroup :: "nat option"

record src_figure =
  sf_size :: "real \<times> real"
  sf_axes :: "src_axes list"

text \<open>
  \<open>get_shared_x_axes().joined(a, b)\<close>: the shared axes form groups; two axes are joined
  when both are in a group and it is the same one. \<open>s_xgroup\<close> and \<open>s_ygroup\<close> name the
  group of an axes, \<open>None\<close> for an axes that shares nothing.
\<close>

definition joined :: "nat option \<Rightarrow> nat option \<Rightarrow> bool" where
  "joined g h = (g \<noteq> None \<and> g = h)"

text \<open>An axes of the composed figure, and the figure.\<close>

datatype locator = AutoLocator | FixedLocator "real list"

datatype formatter = ScalarFormatter | FixedFormatter "string list"

record axes =
  a_children :: "artist list"
  a_containers :: "container list"
  a_xlabel :: string
  a_ylabel :: string
  a_title :: string
  a_title_fontsize :: "nat option"
  a_xlocator :: locator
  a_xformatter :: formatter
  a_yformatter :: formatter
  a_xlim :: "real \<times> real"
  a_ylim :: "real \<times> real"
  a_position :: "real \<times> real \<times> real \<times> real"
  a_legend :: "(handle \<times> string) list option"
  a_xgroup :: "nat option"
  a_ygroup :: "nat option"

text \<open>
  \<open>f_number\<close>: the number under which \<open>pyplot\<close> holds the figure (\<open>fig.number\<close>).
  \<open>f_aligned\<close>: the groups of axes whose y labels \<open>align_ylabels\<close> was asked to align.
\<close>

record figure =
  f_number :: nat
  f_size :: "real \<times> real"
  f_axes :: "axes list"
  f_aligned :: "nat list list"

text \<open>
  What outlives a call: the numbers of the figures that \<open>pyplot\<close> holds open, the number of
  warnings it has issued about too many open figures, and the files written, each with the
  figure that was saved.
\<close>

record world =
  w_fignums :: "nat list"
  w_warnings :: nat
  w_files :: "(string \<times> figure) list"

type_synonym tens = "nat list list list"

section \<open>The calls of the charting library\<close>

definition new_axes :: "real \<times> real \<times> real \<times> real \<Rightarrow> axes" where
  "new_axes pos =
     \<lparr>a_children = [], a_containers = [], a_xlabel = [], a_ylabel = [], a_title = [],
      a_title_fontsize = None, a_xlocator = AutoLocator, a_xformatter = ScalarFormatter,
      a_yformatter = ScalarFormatter, a_xlim = (0, 1), a_ylim = (0, 1), a_position = pos,
      a_legend = None, a_xgroup = None, a_ygroup = None\<rparr>"

definition upd_axes :: "figure \<Rightarrow> nat \<Rightarrow> (axes \<Rightarrow> axes) \<Rightarrow> figure" where
  "upd_axes fig k f = fig\<lparr>f_axes := (f_axes fig)[k := f (f_axes fig ! k)]\<rparr>"

text \<open>
  A setter of a shared axis acts on every axes of the group: on the axes \<open>k\<close> and on the
  axes joined to it.
\<close>

definition upd_shared :: "(axes \<Rightarrow> nat option) \<Rightarrow> figure \<Rightarrow> nat \<Rightarrow> (axes \<Rightarrow> axes) \<Rightarrow> figure" where
  "upd_shared grp fig k f =
     fig\<lparr>f_axes := map (\<lambda>i. let ax = f_axes fig ! i in
                          if i = k \<or> joined (grp (f_axes fig ! k)) (grp ax) then f ax else ax)
                       [0..<length (f_axes fig)]\<rparr>"

definition set_xlim :: "figure \<Rightarrow> nat \<Rightarrow> real \<times> real \<Rightarrow> figure" where
  "set_xlim fig k lm = upd_shared a_xgroup fig k (\<lambda>ax. ax\<lparr>a_xlim := lm\<rparr>)"

definition set_ylim :: "figure \<Rightarrow> nat \<Rightarrow> real \<times> real \<Rightarrow> figure" where
  "set_ylim fig k lm = upd_shared a_ygroup fig k (\<lambda>ax. ax\<lparr>a_ylim := lm\<rparr>)"

definition set_xlocator :: "figure \<Rightarrow> nat \<Rightarrow> locator \<Rightarrow> figure" where
  "set_xlocator fig k loc = upd_shared a_xgroup fig k (\<lambda>ax. ax\<lparr>a_xlocator := loc\<rparr>)"

definition set_xformatter :: "figure \<Rightarrow> nat \<Rightarrow> formatter \<Rightarrow> figure" where
  "set_xformatter fig k fm = upd_shared a_xgroup fig k (\<lambda>ax. ax\<lparr>a_xformatter := fm\<rparr>)"

definition set_yformatter :: "figure \<Rightarrow> nat \<Rightarrow> formatter \<Rightarrow> figure" where
  "set_yformatter fig k fm = upd_shared a_ygroup fig k (\<lambda>ax. ax\<lparr>a_yformatter := fm\<rparr>)"

definition set_xticks :: "figure \<Rightarrow> nat \<Rightarrow> real list \<Rightarrow> figure" where
  "set_xticks fig k ts = set_xlocator fig k (FixedLocator ts)"

text \<open>
  \<open>set_xticklabels\<close> refuses a list of labels that is not empty and whose length is not
  the number of the fixed tick positions.
\<close>

definition set_xticklabels :: "figure \<Rightarrow> nat \<Rightarrow> string list \<Rightarrow> error + figure" where
  "set_xticklabels fig k labs =
     (case a_xlocator (f_axes fig ! k) of
        FixedLocator ts \<Rightarrow>
          if labs \<noteq> [] \<and> length ts \<noteq> length labs then Inl ValueError
          else Inr (set_xformatter fig k (FixedFormatter labs))
      | AutoLocator \<Rightarrow> Inr (set_xformatter fig k (FixedFormatter labs)))"

text \<open>
  The twins of an axes share its position. The group of a twin is named after the axes
  it was made from, on the x side and on the y side alike.
\<close>

definition twinned :: "axes \<Rightarrow> axes \<Rightarrow> bool" where
  "twinned a b =
     (joined (a_xgroup a) (a_xgroup b) \<or> joined (a_ygroup a) (a_ygroup b) \<or>
      joined (a_xgroup a) (a_ygroup b) \<or> joined (a_ygroup a) (a_xgroup b))"

definition set_position :: "figure \<Rightarrow> nat \<Rightarrow> real \<times> real \<times> real \<times> real \<Rightarrow> figure" where
  "set_position fig k pos =
     fig\<lparr>f_axes := map (\<lambda>i. let ax = f_axes fig ! i in
                          if i = k \<or> twinned (f_axes fig ! k) ax then ax\<lparr>a_position := pos\<rparr>
                          else ax)
                       [0..<length (f_axes fig)]\<rparr>"

definition add_artist :: "figure \<Rightarrow> nat \<Rightarrow> artist \<Rightarrow> figure" where
  "add_artist fig k a = upd_axes fig k (\<lambda>ax. ax\<lparr>a_children := a_children ax @ [a]\<rparr>)"

text \<open>
  \<open>plot\<close> adds a line in data coordinates with the default line width; \<open>axhline\<close> and
  \<open>axvline\<close> add a two-point line that spans the axes. \<open>axhline\<close> takes the position as
  \<open>y\<close>: a keyword that is not a property of a line is rejected when the line is built.
\<close>

definition plot ::
  "figure \<Rightarrow> nat \<Rightarrow> real list \<Rightarrow> real list \<Rightarrow> string \<Rightarrow> color \<Rightarrow> string \<Rightarrow> error + figure" where
  "plot fig k xs ys lab col ls =
     (if length xs \<noteq> length ys then Inl ValueError
      else Inr (add_artist fig k (Line2D \<lparr>l_xdata = xs, l_ydata = ys, l_color = col,
             l_linestyle = ls, l_linewidth = 3 / 2, l_alpha = None, l_label = lab,
             l_transform = TransData\<rparr>)))"

definition axhline ::
  "figure \<Rightarrow> nat \<Rightarrow> real \<Rightarrow> color \<Rightarrow> string \<Rightarrow> real \<Rightarrow> real option \<Rightarrow> string \<Rightarrow> figure" where
  "axhline fig k y col ls lw al lab =
     add_artist fig k (Line2D \<lparr>l_xdata = [0, 1], l_ydata = [y, y], l_color = col,
       l_linestyle = ls, l_linewidth = lw, l_alpha = al, l_label = lab,
       l_transform = TransXAxes\<rparr>)"

definition axvline ::
  "figure \<Rightarrow> nat \<Rightarrow> real \<Rightarrow> color \<Rightarrow> string \<Rightarrow> real \<Rightarrow> real option \<Rightarrow> string \<Rightarrow> figure" where
  "axvline fig k x col ls lw al lab =
     add_artist fig k (Line2D \<lparr>l_xdata = [x, x], l_ydata = [0, 1], l_color = col,
       l_linestyle = ls, l_linewidth = lw, l_alpha = al, l_label = lab,
       l_transform = TransYAxes\<rparr>)"

text \<open>The call \<open>new_ax.axhline(x=x0, ...)\<close>: the keyword \<open>x\<close> is not a property of a line.\<close>

definition axhline_kw_x ::
  "figure \<Rightarrow> nat \<Rightarrow> real \<Rightarrow> color \<Rightarrow> string \<Rightarrow> real \<Rightarrow> real option \<Rightarrow> string \<Rightarrow> error + figure" where
  "axhline_kw_x fig k x col ls lw al lab = Inl AttributeError"

text \<open>A collection stores its colours as RGBA, with the alpha of the collection if it has one.\<close>

fun with_alpha :: "rgba \<Rightarrow> real option \<Rightarrow> rgba" where
  "with_alpha (r, g, b, a) None = (r, g, b, a)"
| "with_alpha (r, g, b, a) (Some v) = (r, g, b, v)"

definition single_collection ::
  "point list \<Rightarrow> rgba \<Rightarrow> real \<Rightarrow> string \<Rightarrow> real option \<Rightarrow> string \<Rightarrow> linecollection" where
  "single_collection seg col lw ls al lab =
     \<lparr>lc_segments = [seg], lc_colors = [with_alpha col al], lc_linewidths = [lw],
      lc_linestyles = [ls], lc_alpha = al, lc_label = lab\<rparr>"

definition add_collection :: "figure \<Rightarrow> nat \<Rightarrow> linecollection \<Rightarrow> figure" where
  "add_collection fig k c = add_artist fig k (LineCollection c)"

definition vlines ::
  "figure \<Rightarrow> nat \<Rightarrow> real \<Rightarrow> real \<Rightarrow> real \<Rightarrow> rgba \<Rightarrow> string \<Rightarrow> real \<Rightarrow> real option \<Rightarrow> string \<Rightarrow> figure" where
  "vlines fig k x ymin ymax col ls lw al lab =
     add_collection fig k (single_collection [(x, ymin), (x, ymax)] col lw ls al lab)"

text \<open>
  \<open>fill_between(x, y1, y2, color, alpha)\<close> broadcasts the three arrays to one length and
  adds one closed polygon: a start point, the lower curve, an end point, and the upper
  curve backwards. With no point it adds a collection without a polygon.
\<close>

definition broadcast :: "nat \<Rightarrow> 'a list \<Rightarrow> 'a list" where
  "broadcast n xs = (if length xs = 1 \<and> n \<noteq> 1 then replicate n (hd xs) else xs)"

definition fill_between ::
  "figure \<Rightarrow> nat \<Rightarrow> real list \<Rightarrow> real list \<Rightarrow> real list \<Rightarrow> rgba \<Rightarrow> real option \<Rightarrow> error + figure" where
  "fill_between fig k x y1 y2 col al =
     (let n = (if length x = 1 then length y2 else length x) in
      if length x \<noteq> 1 \<and> length y2 \<noteq> 1 \<and> length x \<noteq> length y2 then Inl ValueError
      else
        let bx = broadcast n x; b1 = broadcast n y1; b2 = broadcast n y2;
            poly = (if n = 0 then []
                    else [[(hd bx, hd b2)] @ zip bx b1 @ [(last bx, last b2)] @ rev (zip bx b2)
                            @ [(hd bx, hd b2)]])
        in Inr (add_artist fig k (PolyCollection
                  \<lparr>pc_paths = poly, pc_facecolors = [with_alpha col al], pc_alpha = al,
                   pc_label = []\<rparr>)))"

text \<open>
  \<open>scatter(x, y, s, c, edgecolors, alpha, label)\<close>, where \<open>x\<close> and \<open>y\<close> are the columns of
  one array of points. The sizes are one value or one per point. An array of \<open>m\<close> colours
  is taken as one colour per point or as a single colour; if it holds as many numbers
  (\<open>4 * m\<close>) as there are points, and is not a single colour, these are values for the
  colour map. Anything else is refused.
\<close>

definition flat_rgba :: "rgba list \<Rightarrow> real list" where
  "flat_rgba cs = concat (map (\<lambda>(r, g, b, a). [r, g, b, a]) cs)"

definition scatter ::
  "figure \<Rightarrow> nat \<Rightarrow> point list \<Rightarrow> real list \<Rightarrow> rgba list option \<Rightarrow> rgba list option
     \<Rightarrow> real option \<Rightarrow> string option \<Rightarrow> error + figure" where
  "scatter fig k pts s c edgecolors al lab =
     (let n = length pts in
      if length s \<noteq> 1 \<and> length s \<noteq> n then Inl ValueError
      else
        let lab' = (case lab of None \<Rightarrow> [] | Some l \<Rightarrow> l);
            ec = (case edgecolors of None \<Rightarrow> [] | Some es \<Rightarrow> map (\<lambda>e. with_alpha e al) es);
            coll = \<lparr>sc_offsets = pts, sc_sizes = s, sc_facecolors = [], sc_edgecolors = ec,
                    sc_alpha = al, sc_label = lab', sc_mapped = None\<rparr>
        in (case c of
              None \<Rightarrow> Inr (add_artist fig k (PathCollection coll))
            | Some cs \<Rightarrow>
                if length cs \<noteq> 1 \<and> 4 * length cs = n then
                  Inr (add_artist fig k (PathCollection (coll\<lparr>sc_mapped := Some (flat_rgba cs)\<rparr>)))
                else if length cs \<noteq> 0 \<and> length cs \<noteq> 1 \<and> length cs \<noteq> n then Inl ValueError
                else Inr (add_artist fig k (PathCollection
                            (coll\<lparr>sc_facecolors := map (\<lambda>f. with_alpha f al) cs\<rparr>)))))"

text \<open>
  \<open>bar(x, height, width, color, edgecolor, linewidth, linestyle, alpha, align='edge')\<close>
  with scalars adds one rectangle standing on zero, under the label \<open>_nolegend_\<close>, and a
  container that holds it. The edge colour \<open>None\<close> stands for the name \<open>none\<close>.
\<close>

definition bar ::
  "figure \<Rightarrow> nat \<Rightarrow> real \<Rightarrow> real \<Rightarrow> real \<Rightarrow> rgba \<Rightarrow> rgba option \<Rightarrow> real \<Rightarrow> string \<Rightarrow> real option
     \<Rightarrow> figure" where
  "bar fig k x height width col edge lw ls al =
     (let r = \<lparr>r_x = x, r_y = 0, r_width = width, r_height = height,
               r_facecolor = with_alpha col al,
               r_edgecolor = (case edge of None \<Rightarrow> (0, 0, 0, 0) | Some e \<Rightarrow> with_alpha e al),
               r_linewidth = lw, r_linestyle = ls, r_alpha = al, r_label = ''_nolegend_''\<rparr>
      in upd_axes fig k (\<lambda>ax. ax\<lparr>a_children := a_children ax @ [Rectangle r],
                                  a_containers := a_containers ax @ [BarContainer [r] []]\<rparr>))"

text \<open>
  \<open>twinx\<close> and \<open>twiny\<close> append a new axes to the figure, at the position of the axes they
  are called on, and join the two on the x axis (on the y axis for \<open>twiny\<close>); the new axes
  starts with the state of the shared axis. They return the new axes (its index).
\<close>

definition group_of :: "nat option \<Rightarrow> nat \<Rightarrow> nat" where
  "group_of g k = (case g of None \<Rightarrow> k | Some n \<Rightarrow> n)"

definition twinx :: "figure \<Rightarrow> nat \<Rightarrow> figure \<times> nat" where
  "twinx fig k =
     (let og = f_axes fig ! k;
          g = group_of (a_xgroup og) k;
          tw = (new_axes (a_position og))\<lparr>a_xlim := a_xlim og, a_xlocator := a_xlocator og,
                 a_xformatter := a_xformatter og, a_xgroup := Some g\<rparr>;
          fig' = upd_axes fig k (\<lambda>ax. ax\<lparr>a_xgroup := Some g\<rparr>)
      in (fig'\<lparr>f_axes := f_axes fig' @ [tw]\<rparr>, length (f_axes fig)))"

definition twiny :: "figure \<Rightarrow> nat \<Rightarrow> figure \<times> nat" where
  "twiny fig k =
     (let og = f_axes fig ! k;
          g = group_of (a_ygroup og) k;
          tw = (new_axes (a_position og))\<lparr>a_ylim := a_ylim og,
                 a_yformatter := a_yformatter og, a_ygroup := Some g\<rparr>;
          fig' = upd_axes fig k (\<lambda>ax. ax\<lparr>a_ygroup := Some g\<rparr>)
      in (fig'\<lparr>f_axes := f_axes fig' @ [tw]\<rparr>, length (f_axes fig)))"

text \<open>
  \<open>add_subplot(nrows, ncols, index)\<close> appends a new axes in the cell \<open>index\<close> (counted from
  one, row by row from the top) of the default grid, and returns it.
\<close>

definition subplot_position :: "nat \<Rightarrow> nat \<Rightarrow> nat \<Rightarrow> real \<times> real \<times> real \<times> real" where
  "subplot_position nrows ncols num =
     (let row = (num - 1) div ncols; col = (num - 1) mod ncols;
          cell_h = (88 / 100 - 11 / 100) / (real nrows + (2 / 10) * (real nrows - 1));
          cell_w = (9 / 10 - 125 / 1000) / (real ncols + (2 / 10) * (real ncols - 1));
          top = 88 / 100 - real row * (cell_h + (2 / 10) * cell_h);
          left = 125 / 1000 + real col * (cell_w + (2 / 10) * cell_w)
      in (left, top - cell_h, cell_w, cell_h))"

definition add_subplot :: "figure \<Rightarrow> nat \<Rightarrow> nat \<Rightarrow> nat \<Rightarrow> error + (figure \<times> nat)" where
  "add_subplot fig nrows ncols num =
     (if nrows = 0 \<or> ncols = 0 \<or> num < 1 \<or> num > nrows * ncols then Inl ValueError
      else Inr (fig\<lparr>f_axes := f_axes fig @ [new_axes (subplot_position nrows ncols num)]\<rparr>,
                length (f_axes fig)))"

text \<open>\<open>ax.legend(handles, labels)\<close> pairs the handles with the labels.\<close>

definition legend :: "figure \<Rightarrow> nat \<Rightarrow> handle list \<Rightarrow> string list \<Rightarrow> figure" where
  "legend fig k hs ls = upd_axes fig k (\<lambda>ax. ax\<lparr>a_legend := Some (zip hs ls)\<rparr>)"

definition remove_legend :: "figure \<Rightarrow> nat \<Rightarrow> figure" where
  "remove_legend fig k = upd_axes fig k (\<lambda>ax. ax\<lparr>a_legend := None\<rparr>)"

definition get_legend_handles_labels :: "axes \<Rightarrow> handle list \<times> string list" where
  "get_legend_handles_labels ax = legend_handles_labels (a_children ax) (a_containers ax)"

text \<open>
  \<open>plt.figure(figsize)\<close> takes the number after the largest number of an open figure (1 when
  none is open), warns when exactly \<open>figure.max_open_warning\<close> figures (20, the default) are
  open already, then builds a new, empty figure under that number and registers it. A
  negative size is refused when the figure is built. \<open>savefig\<close> writes the figure to the file
  of the given name.
\<close>

definition next_num :: "world \<Rightarrow> nat" where
  "next_num w = (if w_fignums w = [] then 1 else fold max (w_fignums w) 0 + 1)"

definition max_open_warning :: nat where
  "max_open_warning = 20"

definition plt_figure :: "real \<times> real \<Rightarrow> world \<Rightarrow> (error + figure) \<times> world" where
  "plt_figure figsize w =
     (let num = next_num w;
          w1 = (if length (w_fignums w) = max_open_warning
                then w\<lparr>w_warnings := Suc (w_warnings w)\<rparr> else w)
      in if fst figsize < 0 \<or> snd figsize < 0 then (Inl ValueError, w1)
         else (Inr \<lparr>f_number = num, f_size = figsize, f_axes = [], f_aligned = []\<rparr>,
               w1\<lparr>w_fignums := w_fignums w1 @ [num]\<rparr>))"

definition savefig :: "figure \<Rightarrow> string \<Rightarrow> world \<Rightarrow> world" where
  "savefig fig name w = w\<lparr>w_files := w_files w @ [(name, fig)]\<rparr>"

section \<open>layout.py: reading the primitives of a source axes and redrawing them\<close>

text \<open>
  In the functions below \<open>new_ax\<close> and \<open>new_ax_og\<close> are axes of the composed figure (their
  indices in \<open>fig.axes\<close>), and \<open>old_ax\<close> is an axes of a source figure.

  \<open>sharing_axis(new_ax_og, old_fig, old_ax)\<close>. \<open>i\<close> is the position of \<open>old_ax\<close> in
  \<open>old_fig.axes\<close>, so that \<open>old_ax == old_fig.axes[0]\<close> is \<open>i = 0\<close>. The local variable
  \<open>new_ax\<close> is \<open>None\<close> until an assignment is reached.
\<close>

definition sharing_axis :: "figure \<Rightarrow> nat \<Rightarrow> src_figure \<Rightarrow> nat \<Rightarrow> error + (figure \<times> nat)" where
  "sharing_axis fig new_ax_og old_fig i =
     (if i = 0 then Inr (fig, new_ax_og)
      else
        let ax0 = sf_axes old_fig ! 0;
            old_ax = sf_axes old_fig ! i;
            (fig1, new_ax1) =
               (if joined (s_xgroup ax0) (s_xgroup old_ax)
                then (let (f, n) = twinx fig new_ax_og in (f, Some n))
                else (fig, None));
            (fig2, new_ax2) =
               (if joined (s_ygroup ax0) (s_ygroup old_ax)
                then (let (f, n) = twiny fig1 new_ax_og in (f, Some n))
                else (fig1, new_ax1))
        in (case new_ax2 of None \<Rightarrow> Inl UnboundLocalError | Some n \<Rightarrow> Inr (fig2, n)))"

definition get_lines :: "artist list \<Rightarrow> line2d list" where
  "get_lines ch = concat (map (\<lambda>a. case a of Line2D l \<Rightarrow> [l] | _ \<Rightarrow> []) ch)"

definition line_collections :: "artist list \<Rightarrow> linecollection list" where
  "line_collections ch = concat (map (\<lambda>a. case a of LineCollection c \<Rightarrow> [c] | _ \<Rightarrow> []) ch)"

definition poly_collections :: "artist list \<Rightarrow> polycollection list" where
  "poly_collections ch = concat (map (\<lambda>a. case a of PolyCollection c \<Rightarrow> [c] | _ \<Rightarrow> []) ch)"

definition path_collections :: "artist list \<Rightarrow> pathcollection list" where
  "path_collections ch = concat (map (\<lambda>a. case a of PathCollection c \<Rightarrow> [c] | _ \<Rightarrow> []) ch)"

definition rectangles :: "artist list \<Rightarrow> rectangle list" where
  "rectangles ch = concat (map (\<lambda>a. case a of Rectangle r \<Rightarrow> [r] | _ \<Rightarrow> []) ch)"

text \<open>\<open>recover_Line2D\<close>: the body of the loop, then the loop.\<close>

definition recover_line :: "line2d \<Rightarrow> figure \<Rightarrow> nat \<Rightarrow> error + figure" where
  "recover_line line fig new_ax =
     (let y_data = l_ydata line; x_data = l_xdata line in
      if length y_data = 2 then
        (if hd y_data = last y_data then
           Inr (axhline fig new_ax (hd y_data) (l_color line) (l_linestyle line)
                  (l_linewidth line) None (l_label line))
         else if x_data = [] then Inl IndexError
         else if hd x_data = last x_data then
           Inr (axvline fig new_ax (hd x_data) (l_color line) (l_linestyle line)
                  (l_linewidth line) None (l_label line))
         else plot fig new_ax x_data y_data (l_label line) (l_color line) (l_linestyle line))
      else plot fig new_ax x_data y_data (l_label line) (l_color line) (l_linestyle line))"

fun recover_lines :: "line2d list \<Rightarrow> figure \<Rightarrow> nat \<Rightarrow> error + figure" where
  "recover_lines [] fig new_ax = Inr fig"
| "recover_lines (line # ls) fig new_ax =
     bind_err (recover_line line fig new_ax) (\<lambda>fig'. recover_lines ls fig' new_ax)"

definition recover_Line2D :: "src_axes \<Rightarrow> figure \<Rightarrow> nat \<Rightarrow> error + figure" where
  "recover_Line2D old_ax fig new_ax = recover_lines (get_lines (s_children old_ax)) fig new_ax"

text \<open>
  The segment loops of \<open>recover_hlines_vlines\<close> and \<open>recover_errorbars\<close>.
  \<open>(x0, y0), (x1, y1) = seg\<close> raises unless the segment has exactly two points. The
  default colour \<open>'black'\<close> is \<open>(0, 0, 0, 1)\<close>.
\<close>

fun unpack_seg :: "point list \<Rightarrow> error + (point \<times> point)" where
  "unpack_seg [p, q] = Inr (p, q)"
| "unpack_seg _ = Inl ValueError"

definition cycled :: "'a list \<Rightarrow> nat \<Rightarrow> 'a \<Rightarrow> 'a" where
  "cycled xs i d = (if length xs > 0 then xs ! (i mod length xs) else d)"

definition hv_segment ::
  "linecollection \<Rightarrow> real \<times> real \<Rightarrow> real \<times> real \<Rightarrow> nat \<Rightarrow> point list \<Rightarrow> figure \<Rightarrow> nat
     \<Rightarrow> error + figure" where
  "hv_segment coll xlim ylim i seg fig new_ax =
     bind_err (unpack_seg seg) (\<lambda>((x0, y0), (x1, y1)).
       let color = cycled (lc_colors coll) i (0, 0, 0, 1);
           lw = cycled (lc_linewidths coll) i 1;
           ls = cycled (lc_linestyles coll) i ''solid'';
           alpha = lc_alpha coll;
           show_label = (if i = 0 then lc_label coll else ''_nolegend_'')
       in if x0 = x1 \<and> y0 = fst ylim \<and> y1 = snd ylim then
            Inr (axvline fig new_ax x0 (RGBA color) ls lw alpha show_label)
          else if y0 = y1 \<and> x0 = fst xlim \<and> x1 = snd xlim then
            axhline_kw_x fig new_ax x0 (RGBA color) ls lw alpha show_label
          else
            Inr (add_collection fig new_ax (single_collection seg color lw ls alpha show_label)))"

fun hv_segments ::
  "linecollection \<Rightarrow> real \<times> real \<Rightarrow> real \<times> real \<Rightarrow> nat \<Rightarrow> point list list \<Rightarrow> figure \<Rightarrow> nat
     \<Rightarrow> error + figure" where
  "hv_segments coll xlim ylim i [] fig new_ax = Inr fig"
| "hv_segments coll xlim ylim i (seg # segs) fig new_ax =
     bind_err (hv_segment coll xlim ylim i seg fig new_ax)
       (\<lambda>fig'. hv_segments coll xlim ylim (Suc i) segs fig' new_ax)"

fun hv_collections ::
  "linecollection list \<Rightarrow> real \<times> real \<Rightarrow> real \<times> real \<Rightarrow> figure \<Rightarrow> nat \<Rightarrow> error + figure" where
  "hv_collections [] xlim ylim fig new_ax = Inr fig"
| "hv_collections (coll # cs) xlim ylim fig new_ax =
     bind_err (hv_segments coll xlim ylim 0 (lc_segments coll) fig new_ax)
       (\<lambda>fig'. hv_collections cs xlim ylim fig' new_ax)"

definition recover_hlines_vlines :: "src_axes \<Rightarrow> figure \<Rightarrow> nat \<Rightarrow> error + figure" where
  "recover_hlines_vlines old_ax fig new_ax =
     hv_collections (line_collections (s_children old_ax)) (s_xlim old_ax) (s_ylim old_ax)
       fig new_ax"

definition eb_segment :: "linecollection \<Rightarrow> nat \<Rightarrow> point list \<Rightarrow> figure \<Rightarrow> nat \<Rightarrow> error + figure" where
  "eb_segment coll i seg fig new_ax =
     bind_err (unpack_seg seg) (\<lambda>((x0, y0), (x1, y1)).
       let color = cycled (lc_colors coll) i (0, 0, 0, 1);
           lw = cycled (lc_linewidths coll) i 1;
           ls = cycled (lc_linestyles coll) i ''solid'';
           alpha = lc_alpha coll;
           show_label = (if i = 0 then lc_label coll else ''_nolegend_'')
       in if x0 = x1 then Inr (vlines fig new_ax x0 y0 y1 color ls lw alpha show_label)
          else Inr (add_collection fig new_ax (single_collection seg color lw ls alpha show_label)))"

fun eb_segments ::
  "linecollection \<Rightarrow> nat \<Rightarrow> point list list \<Rightarrow> figure \<Rightarrow> nat \<Rightarrow> error + figure" where
  "eb_segments coll i [] fig new_ax = Inr fig"
| "eb_segments coll i (seg # segs) fig new_ax =
     bind_err (eb_segment coll i seg fig new_ax) (\<lambda>fig'. eb_segments coll (Suc i) segs fig' new_ax)"

fun eb_collections :: "linecollection list \<Rightarrow> figure \<Rightarrow> nat \<Rightarrow> error + figure" where
  "eb_collections [] fig new_ax = Inr fig"
| "eb_collections (coll # cs) fig new_ax =
     bind_err (eb_segments coll 0 (lc_segments coll) fig new_ax)
       (\<lambda>fig'. eb_collections cs fig' new_ax)"

text \<open>\<open>[c.lines[-1] for c in old_ax.containers if hasattr(c, 'lines')]\<close>, flattened.\<close>

definition errorbar_collections :: "container list \<Rightarrow> linecollection list" where
  "errorbar_collections co =
     concat (map (\<lambda>c. case c of ErrorbarContainer d caps bars lab \<Rightarrow> bars | _ \<Rightarrow> []) co)"

definition recover_errorbars :: "src_axes \<Rightarrow> figure \<Rightarrow> nat \<Rightarrow> error + figure" where
  "recover_errorbars old_ax fig new_ax =
     eb_collections (errorbar_collections (s_containers old_ax)) fig new_ax"

text \<open>
  \<open>recover_fill_between\<close>. With \<open>h = int(len(verts) / 2)\<close>, the slices are
  \<open>x = x_pre[1:h]\<close>, \<open>y1 = y[1:h]\<close> and \<open>y2 = y[h+1:-1][::-1]\<close>; \<open>poly.get_facecolor()[0]\<close>
  raises when the collection has no face colour.
\<close>

definition fill_path :: "polycollection \<Rightarrow> point list \<Rightarrow> figure \<Rightarrow> nat \<Rightarrow> error + figure" where
  "fill_path poly verts fig new_ax =
     (let x_pre = map fst verts;
          h = length x_pre div 2;
          x = take (h - 1) (drop 1 x_pre);
          y = map snd verts;
          y1 = take (h - 1) (drop 1 y);
          y2 = rev (drop (h + 1) (butlast y))
      in case pc_facecolors poly of
           [] \<Rightarrow> Inl IndexError
         | c # _ \<Rightarrow> fill_between fig new_ax x y1 y2 c (pc_alpha poly))"

fun fill_paths :: "polycollection \<Rightarrow> point list list \<Rightarrow> figure \<Rightarrow> nat \<Rightarrow> error + figure" where
  "fill_paths poly [] fig new_ax = Inr fig"
| "fill_paths poly (p # ps) fig new_ax =
     bind_err (fill_path poly p fig new_ax) (\<lambda>fig'. fill_paths poly ps fig' new_ax)"

fun fill_polys :: "polycollection list \<Rightarrow> figure \<Rightarrow> nat \<Rightarrow> error + figure" where
  "fill_polys [] fig new_ax = Inr fig"
| "fill_polys (poly # ps) fig new_ax =
     bind_err (fill_paths poly (pc_paths poly) fig new_ax) (\<lambda>fig'. fill_polys ps fig' new_ax)"

definition recover_fill_between :: "src_axes \<Rightarrow> figure \<Rightarrow> nat \<Rightarrow> error + figure" where
  "recover_fill_between old_ax fig new_ax =
     fill_polys (poly_collections (s_children old_ax)) fig new_ax"

text \<open>\<open>recover_scatter\<close>.\<close>

definition recover_one_scatter :: "pathcollection \<Rightarrow> figure \<Rightarrow> nat \<Rightarrow> error + figure" where
  "recover_one_scatter sc fig new_ax =
     scatter fig new_ax (sc_offsets sc) (sc_sizes sc)
       (if length (sc_facecolors sc) > 0 then Some (sc_facecolors sc) else None)
       (if length (sc_edgecolors sc) > 0 then Some (sc_edgecolors sc) else None)
       (sc_alpha sc)
       (if sc_label sc \<noteq> ''_nolegend_'' then Some (sc_label sc) else None)"

fun recover_scatters :: "pathcollection list \<Rightarrow> figure \<Rightarrow> nat \<Rightarrow> error + figure" where
  "recover_scatters [] fig new_ax = Inr fig"
| "recover_scatters (sc # scs) fig new_ax =
     bind_err (recover_one_scatter sc fig new_ax) (\<lambda>fig'. recover_scatters scs fig' new_ax)"

definition recover_scatter :: "src_axes \<Rightarrow> figure \<Rightarrow> nat \<Rightarrow> error + figure" where
  "recover_scatter old_ax fig new_ax =
     recover_scatters (path_collections (s_children old_ax)) fig new_ax"

text \<open>
  \<open>recover_barplot\<close>. The bars are the rectangles among the patches, without those that
  start at zero and reach the upper y limit. \<open>get_edgecolor\<close> returns an RGBA tuple; an
  edge with alpha zero becomes the name \<open>none\<close> (\<open>None\<close> here). Each bar is redrawn by one
  call of \<open>bar\<close>; the new rectangle is the last child of the new axes and the only patch
  of its last container, and \<open>new_bars\<close> lists these two positions.
\<close>

definition is_bar :: "src_axes \<Rightarrow> rectangle \<Rightarrow> bool" where
  "is_bar old_ax b = (r_y b \<noteq> 0 \<or> r_height b \<noteq> snd (s_ylim old_ax))"

definition bar_edge :: "rectangle \<Rightarrow> rgba option" where
  "bar_edge b = (case r_edgecolor b of (r, g, bl, a) \<Rightarrow> if a = 0 then None else Some (r, g, bl, a))"

fun replot_bars :: "rectangle list \<Rightarrow> figure \<Rightarrow> nat \<Rightarrow> figure \<times> (nat \<times> nat) list" where
  "replot_bars [] fig new_ax = (fig, [])"
| "replot_bars (b # bs) fig new_ax =
     (let ci = length (a_children (f_axes fig ! new_ax));
          ki = length (a_containers (f_axes fig ! new_ax));
          fig' = bar fig new_ax (r_x b) (r_height b) (r_width b) (r_facecolor b) (bar_edge b)
                   (r_linewidth b) (r_linestyle b) (r_alpha b);
          (fig'', new_bars) = replot_bars bs fig' new_ax
      in (fig'', (ci, ki) # new_bars))"

text \<open>
  \<open>handle.get_facecolor() if hasattr(handle, 'get_facecolor') else None\<close>: a patch has one
  face colour, a collection an array of them (empty for a line collection), a line and a
  container have no such method.
\<close>

fun handle_facecolor :: "handle \<Rightarrow> rgba list option" where
  "handle_facecolor (HArtist (Rectangle r)) = Some [r_facecolor r]"
| "handle_facecolor (HArtist (OtherPatch fc s)) = Some [fc]"
| "handle_facecolor (HArtist (LineCollection c)) = Some []"
| "handle_facecolor (HArtist (PolyCollection c)) = Some (pc_facecolors c)"
| "handle_facecolor (HArtist (PathCollection c)) = Some (sc_facecolors c)"
| "handle_facecolor (HArtist (Line2D l)) = None"
| "handle_facecolor (HContainer c) = None"

text \<open>\<open>np.allclose(a, b)\<close>: \<open>|a - b| \<le> atol + rtol * |b|\<close> in every component.\<close>

definition isclose :: "real \<Rightarrow> real \<Rightarrow> bool" where
  "isclose a b = (\<bar>a - b\<bar> \<le> 1 / 10 ^ 8 + (1 / 10 ^ 5) * \<bar>b\<bar>)"

fun allclose :: "rgba \<Rightarrow> rgba \<Rightarrow> bool" where
  "allclose (r, g, b, a) (r', g', b', a') =
     (isclose r r' \<and> isclose g g' \<and> isclose b b' \<and> isclose a a')"

definition bar_facecolor :: "figure \<Rightarrow> nat \<Rightarrow> nat \<Rightarrow> rgba" where
  "bar_facecolor fig new_ax ci =
     (case a_children (f_axes fig ! new_ax) ! ci of Rectangle r \<Rightarrow> r_facecolor r
      | _ \<Rightarrow> (0, 0, 0, 0))"

definition set_bar_label :: "figure \<Rightarrow> nat \<Rightarrow> nat \<times> nat \<Rightarrow> string \<Rightarrow> figure" where
  "set_bar_label fig new_ax nb lab =
     upd_axes fig new_ax (\<lambda>ax.
       ax\<lparr>a_children := (a_children ax)[fst nb :=
              (case a_children ax ! fst nb of Rectangle r \<Rightarrow> Rectangle (r\<lparr>r_label := lab\<rparr>)
               | a \<Rightarrow> a)],
          a_containers := (a_containers ax)[snd nb :=
              (case a_containers ax ! snd nb of
                 BarContainer rs s \<Rightarrow> BarContainer (map (\<lambda>r. r\<lparr>r_label := lab\<rparr>) rs) s
               | c \<Rightarrow> c)]\<rparr>)"

fun label_first ::
  "(nat \<times> nat) list \<Rightarrow> rgba list option \<Rightarrow> string \<Rightarrow> figure \<Rightarrow> nat \<Rightarrow> error + figure" where
  "label_first [] target_fc lab fig new_ax = Inr fig"
| "label_first (nb # bars) target_fc lab fig new_ax =
     (case target_fc of
        None \<Rightarrow> Inl TypeError
      | Some rows \<Rightarrow>
          if list_all (allclose (bar_facecolor fig new_ax (fst nb))) rows
          then Inr (set_bar_label fig new_ax nb lab)
          else label_first bars target_fc lab fig new_ax)"

fun label_bars ::
  "(handle \<times> string) list \<Rightarrow> (nat \<times> nat) list \<Rightarrow> figure \<Rightarrow> nat \<Rightarrow> error + figure" where
  "label_bars [] new_bars fig new_ax = Inr fig"
| "label_bars ((h, lab) # hs) new_bars fig new_ax =
     bind_err (label_first new_bars (handle_facecolor h) lab fig new_ax)
       (\<lambda>fig'. label_bars hs new_bars fig' new_ax)"

definition recover_barplot :: "src_axes \<Rightarrow> figure \<Rightarrow> nat \<Rightarrow> error + figure" where
  "recover_barplot old_ax fig new_ax =
     (let bars = filter (is_bar old_ax) (rectangles (s_children old_ax));
          (handles, labels) = legend_handles_labels (s_children old_ax) (s_containers old_ax);
          (fig', new_bars) = replot_bars bars fig new_ax
      in label_bars (zip handles labels) new_bars fig' new_ax)"

text \<open>\<open>recover_axis_formatting\<close>, \<open>recover_axis_position\<close> and \<open>recover_legend\<close>.\<close>

definition recover_axis_formatting :: "src_axes \<Rightarrow> figure \<Rightarrow> nat \<Rightarrow> error + figure" where
  "recover_axis_formatting old_ax fig new_ax =
     (let fig1 = upd_axes fig new_ax (\<lambda>ax. ax\<lparr>a_xlabel := s_xlabel old_ax\<rparr>);
          fig2 = upd_axes fig1 new_ax (\<lambda>ax. ax\<lparr>a_ylabel := s_ylabel old_ax\<rparr>);
          fig3 = upd_axes fig2 new_ax (\<lambda>ax. ax\<lparr>a_title := s_title old_ax\<rparr>);
          fig4 = set_xticks fig3 new_ax (s_xticks old_ax)
      in bind_err (set_xticklabels fig4 new_ax (s_xticklabels old_ax)) (\<lambda>fig5.
           let fig6 = set_xlim fig5 new_ax (s_xlim old_ax)
           in Inr (set_ylim fig6 new_ax (s_ylim old_ax))))"

definition recover_axis_position :: "src_axes \<Rightarrow> figure \<Rightarrow> nat \<Rightarrow> figure" where
  "recover_axis_position old_ax fig new_ax = set_position fig new_ax (s_position old_ax)"

definition recover_legend :: "src_axes \<Rightarrow> figure \<Rightarrow> nat \<Rightarrow> figure" where
  "recover_legend old_ax fig new_ax =
     (let (handles, labels) = legend_handles_labels (s_children old_ax) (s_containers old_ax)
      in legend fig new_ax handles labels)"

text \<open>\<open>plot_same_new_figure(old_fig, new_ax_og)\<close>: the body of the loop for the axes \<open>i\<close> of
  \<open>old_fig\<close>, then the loop.\<close>

definition replot_axis :: "src_figure \<Rightarrow> nat \<Rightarrow> figure \<Rightarrow> nat \<Rightarrow> error + figure" where
  "replot_axis old_fig i fig new_ax_og =
     bind_err (sharing_axis fig new_ax_og old_fig i) (\<lambda>(fig0, new_ax).
       let old_ax = sf_axes old_fig ! i in
       bind_err (recover_Line2D old_ax fig0 new_ax) (\<lambda>fig1.
       bind_err (recover_errorbars old_ax fig1 new_ax) (\<lambda>fig2.
       bind_err (recover_hlines_vlines old_ax fig2 new_ax) (\<lambda>fig3.
       bind_err (recover_fill_between old_ax fig3 new_ax) (\<lambda>fig4.
       bind_err (recover_scatter old_ax fig4 new_ax) (\<lambda>fig5.
       bind_err (recover_barplot old_ax fig5 new_ax) (\<lambda>fig6.
       bind_err (recover_axis_formatting old_ax fig6 new_ax) (\<lambda>fig7.
         Inr (recover_legend old_ax (recover_axis_position old_ax fig7 new_ax) new_ax)))))))))"

fun replot_axes :: "src_figure \<Rightarrow> nat list \<Rightarrow> figure \<Rightarrow> nat \<Rightarrow> error + figure" where
  "replot_axes old_fig [] fig new_ax_og = Inr fig"
| "replot_axes old_fig (i # is) fig new_ax_og =
     bind_err (replot_axis old_fig i fig new_ax_og)
       (\<lambda>fig'. replot_axes old_fig is fig' new_ax_og)"

definition plot_same_new_figure :: "src_figure \<Rightarrow> figure \<Rightarrow> nat \<Rightarrow> error + figure" where
  "plot_same_new_figure old_fig fig new_ax_og =
     replot_axes old_fig [0..<length (sf_axes old_fig)] fig new_ax_og"

section \<open>layout.py: the grid\<close>

text \<open>
  A two-dimensional array of figures: its number of columns and its rows. \<open>np.array\<close>
  refuses a list of rows of different lengths; \<open>reshape(-1, k)\<close> needs \<open>k\<close> to be positive
  and to divide the number of elements.
\<close>

record figarray =
  nd_ncols :: nat
  nd_rows :: "src_figure list list"

definition np_array_flat :: "'a list list \<Rightarrow> error + 'a list" where
  "np_array_flat rows =
     (if list_all (\<lambda>r. length r = length (hd rows)) rows then Inr (concat rows)
      else Inl ValueError)"

definition reshape :: "src_figure list \<Rightarrow> nat \<Rightarrow> error + figarray" where
  "reshape xs k =
     (if k = 0 \<or> length xs mod k \<noteq> 0 then Inl ValueError
      else Inr \<lparr>nd_ncols = k,
                nd_rows = map (\<lambda>i. take k (drop (i * k) xs)) [0..<length xs div k]\<rparr>)"

text \<open>
  \<open>print_into_row_subplots(temp_fig_list, new_fig, pad)\<close>: the inner loop over the figures
  of one row, from column \<open>j\<close> on, and the outer loop over the rows, from row \<open>i\<close> on. Both
  return the figure, \<open>num_ax\<close> and the part of \<open>tens\<close> they have built.
\<close>

definition cell_position :: "nat \<Rightarrow> nat \<Rightarrow> real \<Rightarrow> nat \<Rightarrow> nat \<Rightarrow> real \<times> real \<times> real \<times> real" where
  "cell_position nrows ncols pad i j =
     ((real j + pad) / real ncols, (real i + pad) / real nrows,
      (1 - 2 * pad) / real ncols, (1 - 2 * pad) / real nrows)"

fun print_row ::
  "nat \<Rightarrow> nat \<Rightarrow> real \<Rightarrow> nat \<Rightarrow> nat \<Rightarrow> src_figure list \<Rightarrow> figure \<Rightarrow> nat
     \<Rightarrow> error + (figure \<times> nat \<times> nat list list)" where
  "print_row nrows ncols pad i j [] new_fig num_ax = Inr (new_fig, num_ax, [])"
| "print_row nrows ncols pad i j (f # fs) new_fig num_ax =
     bind_err (add_subplot new_fig nrows ncols (i * ncols + j + 1)) (\<lambda>(fig1, ax).
     bind_err (plot_same_new_figure f fig1 ax) (\<lambda>fig2.
       let num_new_ax = length (f_axes fig2) - num_ax;
           vec = [num_ax..<num_ax + num_new_ax];
           fig3 = fold (\<lambda>n fg. set_position fg n (cell_position nrows ncols pad i j)) vec fig2
       in bind_err (print_row nrows ncols pad i (Suc j) fs fig3 (length (f_axes fig3)))
            (\<lambda>(fig4, num_ax', mat). Inr (fig4, num_ax', vec # mat))))"

fun print_rows ::
  "nat \<Rightarrow> nat \<Rightarrow> real \<Rightarrow> nat \<Rightarrow> src_figure list list \<Rightarrow> figure \<Rightarrow> nat
     \<Rightarrow> error + (figure \<times> nat \<times> tens)" where
  "print_rows nrows ncols pad i [] new_fig num_ax = Inr (new_fig, num_ax, [])"
| "print_rows nrows ncols pad i (m # ms) new_fig num_ax =
     bind_err (print_row nrows ncols pad i 0 m new_fig num_ax) (\<lambda>(fig1, num_ax1, mat).
     bind_err (print_rows nrows ncols pad (Suc i) ms fig1 num_ax1) (\<lambda>(fig2, num_ax2, tens).
       Inr (fig2, num_ax2, mat # tens)))"

definition print_into_row_subplots :: "figarray \<Rightarrow> figure \<Rightarrow> real \<Rightarrow> error + (figure \<times> tens)" where
  "print_into_row_subplots temp_fig_list new_fig pad =
     (let nrows = length (nd_rows temp_fig_list); ncols = nd_ncols temp_fig_list
      in bind_err (print_rows nrows ncols pad 0 (nd_rows temp_fig_list) new_fig 0)
           (\<lambda>(fig, num_ax, tens). Inr (fig, rev tens)))"

text \<open>
  \<open>create_figure(mat_fig, list_sites, pad)\<close>. \<open>np.max\<close> of an empty list raises. The new
  figure stays registered with \<open>pyplot\<close> whether the drawing succeeds or not.
\<close>

definition max_list :: "real list \<Rightarrow> real" where
  "max_list xs = fold max (tl xs) (hd xs)"

definition min_list :: "real list \<Rightarrow> real" where
  "min_list xs = fold min (tl xs) (hd xs)"

definition create_figure ::
  "src_figure list list \<Rightarrow> string list \<Rightarrow> real \<Rightarrow> world \<Rightarrow> (error + (figure \<times> tens)) \<times> world" where
  "create_figure mat_fig list_sites pad w =
     (case bind_err (np_array_flat mat_fig) (\<lambda>flat. reshape flat (length list_sites)) of
        Inl e \<Rightarrow> (Inl e, w)
      | Inr arr \<Rightarrow>
          let temp_fig_list = arr\<lparr>nd_rows := rev (nd_rows arr)\<rparr>;
              ncols = nd_ncols temp_fig_list;
              firsts = map hd (nd_rows temp_fig_list)
          in if firsts = [] then (Inl ValueError, w)
             else
               (case plt_figure (real ncols * max_list (map (\<lambda>f. fst (sf_size f)) firsts),
                                 sum_list (map (\<lambda>f. snd (sf_size f)) firsts)) w of
                  (Inl e, w') \<Rightarrow> (Inl e, w')
                | (Inr fig, w') \<Rightarrow> (print_into_row_subplots temp_fig_list fig pad, w')))"

section \<open>layout.py: the passes over the composed figure\<close>

text \<open>
  \<open>legends_only_last_subplot(fig, tens)\<close>. The inner loop visits the axes of the slice
  \<open>fig.axes[flat_mat[0]:flat_mat[-1]+1]\<close>; \<open>k\<close> is \<open>i + flat_mat[0]\<close>, the index of the axes
  in \<open>fig.axes\<close>. \<open>flat_mat[0]\<close> raises when the row has no axes at all.
\<close>

definition drop_legend :: "figure \<Rightarrow> nat \<Rightarrow> figure" where
  "drop_legend fig k = (if a_legend (f_axes fig ! k) \<noteq> None then remove_legend fig k else fig)"

fun legends_axes ::
  "nat list \<Rightarrow> nat list list \<Rightarrow> handle list \<Rightarrow> string list \<Rightarrow> figure \<Rightarrow> figure" where
  "legends_axes [] mat handles labels fig = fig"
| "legends_axes (k # ks) mat handles labels fig =
     (if k \<in> set (last mat) then
        (let (h, l) = get_legend_handles_labels (f_axes fig ! k);
             handles' = handles @ h;
             labels' = labels @ l
         in if k = last (last mat)
            then legends_axes ks mat handles' labels' (legend fig k handles' labels')
            else legends_axes ks mat handles' labels' (drop_legend fig k))
      else legends_axes ks mat handles labels (drop_legend fig k))"

definition legends_mat :: "nat list list \<Rightarrow> figure \<Rightarrow> error + figure" where
  "legends_mat mat fig =
     (let flat_mat = concat mat in
      if flat_mat = [] then Inl IndexError
      else Inr (legends_axes [hd flat_mat..<min (Suc (last flat_mat)) (length (f_axes fig))]
                  mat [] [] fig))"

fun legends_only_last_subplot :: "figure \<Rightarrow> tens \<Rightarrow> error + figure" where
  "legends_only_last_subplot fig [] = Inr fig"
| "legends_only_last_subplot fig (mat # ms) =
     bind_err (legends_mat mat fig) (\<lambda>fig'. legends_only_last_subplot fig' ms)"

text \<open>
  \<open>labels_only_last_subplot(fig, tens)\<close>. \<open>set_yticklabels('')\<close> installs an empty list of
  labels. The loops run over the subplots of a row (\<open>row\<close> counts them) and over the axes
  of a subplot (\<open>num_ax\<close> counts them).
\<close>

definition clear_ylabel :: "figure \<Rightarrow> nat \<Rightarrow> error + figure" where
  "clear_ylabel fig j =
     (if j \<ge> length (f_axes fig) then Inl IndexError
      else Inr (set_yformatter (upd_axes fig j (\<lambda>ax. ax\<lparr>a_ylabel := []\<rparr>)) j (FixedFormatter [])))"

fun labels_cell :: "nat \<Rightarrow> nat \<Rightarrow> nat \<Rightarrow> nat list \<Rightarrow> figure \<Rightarrow> error + figure" where
  "labels_cell len_mat row num_ax [] fig = Inr fig"
| "labels_cell len_mat row num_ax (j # js) fig =
     bind_err (if row > 0 \<and> num_ax = 0 then clear_ylabel fig j else Inr fig) (\<lambda>fig1.
     bind_err (if row + 1 < len_mat \<and> num_ax = 1 then clear_ylabel fig1 j else Inr fig1) (\<lambda>fig2.
       labels_cell len_mat row (Suc num_ax) js fig2))"

fun labels_mat :: "nat \<Rightarrow> nat \<Rightarrow> nat list list \<Rightarrow> figure \<Rightarrow> error + figure" where
  "labels_mat len_mat row [] fig = Inr fig"
| "labels_mat len_mat row (i # is) fig =
     bind_err (labels_cell len_mat row 0 i fig) (\<lambda>fig'. labels_mat len_mat (Suc row) is fig')"

fun labels_only_last_subplot :: "figure \<Rightarrow> tens \<Rightarrow> error + figure" where
  "labels_only_last_subplot fig [] = Inr fig"
| "labels_only_last_subplot fig (mat # ms) =
     bind_err (labels_mat (length mat) 0 mat fig) (\<lambda>fig'. labels_only_last_subplot fig' ms)"

text \<open>
  \<open>set_common_ylims(fig, tens)\<close>. \<open>np.array(mat).shape[1]\<close> raises for an empty row and for
  a row whose subplots have different numbers of axes. For the position \<open>j\<close> the limits of
  the axes \<open>m[j]\<close> are read off the array of all limits (which has no first row when the
  figure has no axes, and leaves nothing to take the minimum of when no index is in
  range), and then set on each of these axes.
\<close>

definition np_shape1 :: "nat list list \<Rightarrow> error + nat" where
  "np_shape1 mat =
     (if mat = [] then Inl IndexError
      else if list_all (\<lambda>m. length m = length (hd mat)) mat then Inr (length (hd mat))
      else Inl ValueError)"

fun set_ylims_loop :: "nat list \<Rightarrow> real \<times> real \<Rightarrow> figure \<Rightarrow> error + figure" where
  "set_ylims_loop [] lm fig = Inr fig"
| "set_ylims_loop (k # ks) lm fig =
     (if k \<ge> length (f_axes fig) then Inl IndexError
      else set_ylims_loop ks lm (set_ylim fig k lm))"

definition ylims_col :: "nat list list \<Rightarrow> nat \<Rightarrow> figure \<Rightarrow> error + figure" where
  "ylims_col mat j fig =
     (let idxs = map (\<lambda>m. m ! j) mat;
          sel = filter (\<lambda>i. i \<in> set idxs) [0..<length (f_axes fig)]
      in if f_axes fig = [] then Inl IndexError
         else if sel = [] then Inl ValueError
         else
           let y_min_all = min_list (map (\<lambda>i. fst (a_ylim (f_axes fig ! i))) sel);
               y_max_all = max_list (map (\<lambda>i. snd (a_ylim (f_axes fig ! i))) sel)
           in set_ylims_loop idxs (y_min_all, y_max_all) fig)"

fun ylims_cols :: "nat list list \<Rightarrow> nat list \<Rightarrow> figure \<Rightarrow> error + figure" where
  "ylims_cols mat [] fig = Inr fig"
| "ylims_cols mat (j # js) fig = bind_err (ylims_col mat j fig) (\<lambda>fig'. ylims_cols mat js fig')"

fun set_common_ylims :: "figure \<Rightarrow> tens \<Rightarrow> error + figure" where
  "set_common_ylims fig [] = Inr fig"
| "set_common_ylims fig (mat # ms) =
     bind_err (np_shape1 mat) (\<lambda>n.
     bind_err (ylims_cols mat [0..<n] fig) (\<lambda>fig'. set_common_ylims fig' ms))"

text \<open>
  \<open>sharex_rows(fig, tens)\<close> reads all the limits first (an index out of range raises),
  takes the minimum and the maximum of each row (an empty row raises) and then sets them.
  \<open>sharex_cols\<close> does the same on \<open>zip(*tens)\<close>, which stops at the shortest row.
\<close>

definition sharex_axis :: "real \<times> real \<Rightarrow> nat \<Rightarrow> figure \<Rightarrow> figure" where
  "sharex_axis lm i fig =
     set_xformatter (set_xlocator (set_xlim fig i lm) i AutoLocator) i ScalarFormatter"

definition sharex_rows :: "figure \<Rightarrow> tens \<Rightarrow> error + figure" where
  "sharex_rows fig tens =
     (let rows = map concat tens in
      if list_ex (\<lambda>r. r \<ge> length (f_axes fig)) (concat rows) then Inl IndexError
      else if list_ex (\<lambda>row. row = []) rows then Inl ValueError
      else
        let lims = map (map (\<lambda>r. a_xlim (f_axes fig ! r))) rows;
            xmin = map (\<lambda>row. min_list (map fst row)) lims;
            xmax = map (\<lambda>row. max_list (map snd row)) lims
        in Inr (fold (\<lambda>(row, lm) fg. fold (sharex_axis lm) row fg)
                  (zip rows (zip xmin xmax)) fig))"

definition zip_star :: "'a list list \<Rightarrow> 'a list list" where
  "zip_star xss =
     (if xss = [] then []
      else map (\<lambda>i. map (\<lambda>xs. xs ! i) xss)
             [0..<fold min (map length (tl xss)) (length (hd xss))])"

definition sharex_cols :: "figure \<Rightarrow> tens \<Rightarrow> error + figure" where
  "sharex_cols fig tens = sharex_rows fig (zip_star tens)"

datatype sharex_arg = SharexBool bool | SharexStr string

definition set_common_xlims :: "figure \<Rightarrow> tens \<Rightarrow> sharex_arg \<Rightarrow> error + figure" where
  "set_common_xlims fig tens sharex =
     (if sharex = SharexStr ''row'' then sharex_rows fig tens
      else if sharex = SharexStr ''col'' then sharex_cols fig tens
      else if sharex = SharexBool True \<or> sharex = SharexStr ''all'' then
        bind_err (sharex_rows fig tens) (\<lambda>fig'. sharex_cols fig' tens)
      else Inr fig)"

text \<open>\<open>add_column_titles(fig, tens, list_sites)\<close> and \<open>align_ylabels(fig, tens)\<close>.\<close>

definition axes_at :: "figure \<Rightarrow> nat list \<Rightarrow> error + nat list" where
  "axes_at fig ks = (if list_ex (\<lambda>k. k \<ge> length (f_axes fig)) ks then Inl IndexError else Inr ks)"

definition add_column_titles :: "figure \<Rightarrow> tens \<Rightarrow> string list \<Rightarrow> error + figure" where
  "add_column_titles fig tens list_sites =
     (if tens = [] then Inl IndexError
      else if list_ex (\<lambda>m. m = []) (hd tens) then Inl IndexError
      else bind_err (axes_at fig (map hd (hd tens))) (\<lambda>axs.
             Inr (fold (\<lambda>(k, col) fg. upd_axes fg k
                          (\<lambda>ax. ax\<lparr>a_title := col, a_title_fontsize := Some 20\<rparr>))
                    (zip axs list_sites) fig)))"

definition fig_align_ylabels :: "figure \<Rightarrow> nat list \<Rightarrow> figure" where
  "fig_align_ylabels fig axs = fig\<lparr>f_aligned := f_aligned fig @ [axs]\<rparr>"

definition align_ylabels :: "figure \<Rightarrow> tens \<Rightarrow> error + figure" where
  "align_ylabels fig tens =
     (if list_ex (\<lambda>m. m = [] \<or> hd m = []) tens then Inl IndexError
      else bind_err (axes_at fig (map (\<lambda>m. hd (hd m)) tens)) (\<lambda>lefts.
             let fig1 = fig_align_ylabels fig lefts in
             if list_ex (\<lambda>m. last m = []) tens then Inl IndexError
             else bind_err (axes_at fig1 (map (\<lambda>m. last (last m)) tens)) (\<lambda>rights.
                    Inr (fig_align_ylabels fig1 rights))))"

section \<open>plotting\_funcs.py\<close>

text \<open>
  \<open>master_plot(mat_fig, list_sites, pad, save_plots, sharex)\<close>. \<open>if save_plots:\<close> holds for
  a string that is not empty.
\<close>

definition master_plot ::
  "src_figure list list \<Rightarrow> string list \<Rightarrow> real \<Rightarrow> string option \<Rightarrow> sharex_arg \<Rightarrow> world
     \<Rightarrow> (error + (figure \<times> tens)) \<times> world" where
  "master_plot mat_fig list_sites pad save_plots sharex w =
     (case create_figure mat_fig list_sites pad w of
        (Inl e, w1) \<Rightarrow> (Inl e, w1)
      | (Inr (fig, tens), w1) \<Rightarrow>
          (case bind_err (legends_only_last_subplot fig tens) (\<lambda>fig.
                bind_err (labels_only_last_subplot fig tens) (\<lambda>fig.
                bind_err (set_common_ylims fig tens) (\<lambda>fig.
                bind_err (set_common_xlims fig tens sharex) (\<lambda>fig.
                bind_err (add_column_titles fig tens list_sites) (\<lambda>fig.
                  align_ylabels fig tens))))) of
             Inl e \<Rightarrow> (Inl e, w1)
           | Inr fig \<Rightarrow>
               (Inr (fig, tens),
                (case save_plots of
                   None \<Rightarrow> w1
                 | Some s \<Rightarrow> if s \<noteq> [] then savefig fig (s @ ''.pdf'') w1 else w1))))"

section \<open>Example figures\<close>

text \<open>
  A figure with one axes and one labelled line; the same figure with a second axes made by
  \<open>twinx\<close>, and with one made by \<open>twiny\<close>; and a figure with two unrelated axes, as
  \<open>plt.subplots(1, 2)\<close> makes it.
\<close>

definition line_a :: line2d where
  "line_a = \<lparr>l_xdata = [0, 1, 2], l_ydata = [1, 3, 2], l_color = ColorName ''C0'',
             l_linestyle = ''-'', l_linewidth = 3 / 2, l_alpha = None, l_label = ''data'',
             l_transform = TransData\<rparr>"

definition line_b :: line2d where
  "line_b = \<lparr>l_xdata = [0, 1, 2], l_ydata = [10, 20, 15], l_color = ColorName ''C1'',
             l_linestyle = ''--'', l_linewidth = 3 / 2, l_alpha = None, l_label = ''other'',
             l_transform = TransData\<rparr>"

definition axes_a :: src_axes where
  "axes_a = \<lparr>s_children = [Line2D line_a], s_containers = [], s_xlabel = ''x'',
             s_ylabel = ''y'', s_title = [], s_xticks = [0, 1, 2],
             s_xticklabels = [''0'', ''1'', ''2''], s_xlim = (0, 2), s_ylim = (0, 1),
             s_position = (1 / 8, 11 / 100, 31 / 40, 77 / 100),
             s_xgroup = None, s_ygroup = None\<rparr>"

definition axes_b :: src_axes where
  "axes_b = axes_a\<lparr>s_children := [Line2D line_b], s_ylabel := ''z'', s_ylim := (10, 20)\<rparr>"

definition fig_plain :: src_figure where
  "fig_plain = \<lparr>sf_size = (32 / 5, 24 / 5), sf_axes = [axes_a]\<rparr>"

definition fig_twinx :: src_figure where
  "fig_twinx = \<lparr>sf_size = (32 / 5, 24 / 5),
                sf_axes = [axes_a\<lparr>s_xgroup := Some 0\<rparr>, axes_b\<lparr>s_xgroup := Some 0\<rparr>]\<rparr>"

definition fig_twiny :: src_figure where
  "fig_twiny = \<lparr>sf_size = (32 / 5, 24 / 5),
                sf_axes = [axes_a\<lparr>s_ygroup := Some 0\<rparr>, axes_a\<lparr>s_ygroup := Some 0\<rparr>]\<rparr>"

definition fig_two_axes :: src_figure where
  "fig_two_axes = \<lparr>sf_size = (32 / 5, 24 / 5), sf_axes = [axes_a, axes_b]\<rparr>"

definition world0 :: world where
  "world0 = \<lparr>w_fignums = [], w_warnings = 0, w_files = []\<rparr>"

section \<open>What the passes are meant to establish\<close>

text \<open>
  \<open>redrawn_as l l'\<close>: the line \<open>l'\<close> is the line \<open>l\<close> redrawn. Colour, line style and label
  are those of \<open>l\<close>. A two-point line with constant y is a horizontal line across the axes
  at that y; any other two-point line with constant x is a vertical line across the axes
  at that x; every other line keeps its x data and its y data.
\<close>

definition redrawn_as :: "line2d \<Rightarrow> line2d \<Rightarrow> bool" where
  "redrawn_as l l' =
     (l_color l' = l_color l \<and> l_linestyle l' = l_linestyle l \<and> l_label l' = l_label l \<and>
      (if length (l_ydata l) = 2 \<and> hd (l_ydata l) = last (l_ydata l) then
         l_transform l' = TransXAxes \<and> l_xdata l' = [0, 1] \<and> l_ydata l' = l_ydata l
       else if length (l_ydata l) = 2 \<and> hd (l_xdata l) = last (l_xdata l) then
         l_transform l' = TransYAxes \<and> l_xdata l' = l_xdata l \<and> l_ydata l' = [0, 1]
       else
         l_transform l' = TransData \<and> l_xdata l' = l_xdata l \<and> l_ydata l' = l_ydata l))"

text \<open>A two-point line that is a single point twice, and an empty figure with one axes.\<close>

definition line_point :: line2d where
  "line_point = \<lparr>l_xdata = [1, 1], l_ydata = [2, 2], l_color = ColorName ''k'',
                 l_linestyle = ''-'', l_linewidth = 1, l_alpha = None, l_label = ''p'',
                 l_transform = TransData\<rparr>"

definition fig_one_axes :: figure where
  "fig_one_axes =
     \<lparr>f_number = 1, f_size = (1, 1), f_axes = [new_axes (0, 0, 1, 1)], f_aligned = []\<rparr>"

text \<open>An axes with one line collection, made by \<open>hlines(0.5, 0, 2)\<close> on the x range \<open>(0, 2)\<close>.\<close>

definition coll_hline :: linecollection where
  "coll_hline = \<lparr>lc_segments = [[(0, 1 / 2), (2, 1 / 2)]], lc_colors = [(0, 0, 1, 1)],
                 lc_linewidths = [3 / 2], lc_linestyles = [''solid''], lc_alpha = None,
                 lc_label = ''level''\<rparr>"

definition axes_hline :: src_axes where
  "axes_hline = axes_a\<lparr>s_children := [LineCollection coll_hline]\<rparr>"

text \<open>
  A grid index of a figure with \<open>n\<close> axes, as \<open>create_figure\<close> builds it: every row has a
  subplot, every subplot has an axes, and the axes are numbered subplot after subplot,
  from the last row of \<open>tens\<close> to the first.
\<close>

definition grid_index :: "nat \<Rightarrow> tens \<Rightarrow> bool" where
  "grid_index n tens =
     (concat (concat (rev tens)) = [0..<n] \<and>
      (\<forall>mat \<in> set tens. mat \<noteq> [] \<and> (\<forall>c \<in> set mat. c \<noteq> [])))"

text \<open>The legend handles, and the legend labels, of the axes \<open>ks\<close> of a figure, concatenated.\<close>

definition handles_of :: "figure \<Rightarrow> nat list \<Rightarrow> handle list" where
  "handles_of fig ks = concat (map (\<lambda>k. fst (get_legend_handles_labels (f_axes fig ! k))) ks)"

definition labels_of :: "figure \<Rightarrow> nat list \<Rightarrow> string list" where
  "labels_of fig ks = concat (map (\<lambda>k. snd (get_legend_handles_labels (f_axes fig ! k))) ks)"

text \<open>
  A row of a grid index, seen from a figure with \<open>n\<close> axes: its axes are \<open>a, ..., b - 1\<close>,
  and those of its last subplot are \<open>c, ..., b - 1\<close>.
\<close>

definition row_block :: "nat \<Rightarrow> nat list list \<Rightarrow> nat \<Rightarrow> nat \<Rightarrow> nat \<Rightarrow> bool" where
  "row_block n mat a c b =
     (concat mat = [a..<b] \<and> mat \<noteq> [] \<and> last mat = [c..<b] \<and> a \<le> c \<and> c < b \<and> b \<le> n)"

text \<open>
  A composed figure of one row with two subplots, as \<open>create_figure\<close> leaves it: the first
  subplot has an axes and its \<open>twinx\<close> twin, the second an axes and its \<open>twiny\<close> twin.
\<close>

definition axes_og :: axes where
  "axes_og = (new_axes (0, 0, 1, 1))\<lparr>a_children := [Line2D line_a], a_ylim := (0, 1)\<rparr>"

definition fig_row :: figure where
  "fig_row =
     \<lparr>f_number = 1, f_size = (2, 1),
      f_axes = [axes_og\<lparr>a_xgroup := Some 0\<rparr>,
                (new_axes (0, 0, 1, 1))\<lparr>a_children := [Line2D line_b], a_ylim := (10, 20),
                                         a_xgroup := Some 0\<rparr>,
                axes_og\<lparr>a_ygroup := Some 2\<rparr>,
                axes_og\<lparr>a_ygroup := Some 2\<rparr>],
      f_aligned = []\<rparr>"

definition tens_row :: tens where
  "tens_row = [[[0, 1], [2, 3]]]"

text \<open>Two states of a figure with the same axes, each with the same legend handles and labels.\<close>

definition same_artists :: "figure \<Rightarrow> figure \<Rightarrow> bool" where
  "same_artists f g = (length (f_axes g) = length (f_axes f) \<and>
     (\<forall>j. get_legend_handles_labels (f_axes g ! j) = get_legend_handles_labels (f_axes f ! j)))"

text \<open>
  The pipeline in the words of the specification: the arrangement made by
  \<open>create_figure\<close>, then a fixed sequence of passes, each one acting on the figure that the
  pass before it returned and stopping the run if it raises, then the optional file.
\<close>

definition run_passes :: "(figure \<Rightarrow> error + figure) list \<Rightarrow> figure \<Rightarrow> error + figure" where
  "run_passes ps fig = fold (\<lambda>p r. bind_err r p) ps (Inr fig)"

definition pass_sequence :: "tens \<Rightarrow> string list \<Rightarrow> sharex_arg \<Rightarrow> (figure \<Rightarrow> error + figure) list" where
  "pass_sequence tens list_sites sharex =
     [\<lambda>fig. legends_only_last_subplot fig tens,
      \<lambda>fig. labels_only_last_subplot fig tens,
      \<lambda>fig. set_common_ylims fig tens,
      \<lambda>fig. set_common_xlims fig tens sharex,
      \<lambda>fig. add_column_titles fig tens list_sites,
      \<lambda>fig. align_ylabels fig tens]"

definition pipeline ::
  "src_figure list list \<Rightarrow> string list \<Rightarrow> real \<Rightarrow> string option \<Rightarrow> sharex_arg \<Rightarrow> world
     \<Rightarrow> (error + (figure \<times> tens)) \<times> world" where
  "pipeline mat_fig list_sites pad save_plots sharex w =
     (case create_figure mat_fig list_sites pad w of
        (Inl e, w1) \<Rightarrow> (Inl e, w1)
      | (Inr (fig, tens), w1) \<Rightarrow>
          (case run_passes (pass_sequence tens list_sites sharex) fig of
             Inl e \<Rightarrow> (Inl e, w1)
           | Inr fig' \<Rightarrow>
               (Inr (fig', tens),
                (case save_plots of
                   None \<Rightarrow> w1
                 | Some s \<Rightarrow> if s \<noteq> [] then savefig fig' (s @ ''.pdf'') w1 else w1))))"

text \<open>The files that a call of \<open>master_plot\<close> that returned \<open>fig\<close> has written.\<close>

definition files_written :: "string option \<Rightarrow> figure \<Rightarrow> (string \<times> figure) list" where
  "files_written save_plots fig =
     (case save_plots of None \<Rightarrow> [] | Some s \<Rightarrow> if s = [] then [] else [(s @ ''.pdf'', fig)])"

text \<open>
  The number of axes that redrawing a source figure adds to the composed figure: the one
  made by \<open>add_subplot\<close>, and for every axes but the first a \<open>twinx\<close> twin if it is joined to
  the first axes on x and a \<open>twiny\<close> twin if it is joined to it on y.
\<close>

definition twins_made :: "src_figure \<Rightarrow> nat \<Rightarrow> nat" where
  "twins_made old_fig i =
     (if i = 0 then 0
      else (if joined (s_xgroup (sf_axes old_fig ! 0)) (s_xgroup (sf_axes old_fig ! i)) then 1 else 0)
         + (if joined (s_ygroup (sf_axes old_fig ! 0)) (s_ygroup (sf_axes old_fig ! i)) then 1 else 0))"

definition axes_made :: "src_figure \<Rightarrow> nat" where
  "axes_made old_fig = 1 + sum_list (map (twins_made old_fig) [0..<length (sf_axes old_fig)])"

text \<open>The number of axes of the composed figure.\<close>

definition n_axes :: "figure \<Rightarrow> nat" where
  "n_axes fig = length (f_axes fig)"

text \<open>
  A list of figures regrouped into rows of \<open>k\<close> consecutive figures, which is what
  \<open>reshape(-1, k)\<close> makes of a grid.
\<close>

definition regrid :: "nat \<Rightarrow> 'a list \<Rightarrow> 'a list list" where
  "regrid k xs = map (\<lambda>i. take k (drop (i * k) xs)) [0..<length xs div k]"

text \<open>The figure under another number of \<open>pyplot\<close>; the same for a result that may be an error.\<close>

definition renumber :: "nat \<Rightarrow> figure \<Rightarrow> figure" where
  "renumber n fig = fig\<lparr>f_number := n\<rparr>"

definition renumbered :: "nat \<Rightarrow> error + figure \<Rightarrow> error + figure" where
  "renumbered n r = map_sum id (renumber n) r"

section \<open>Errors propagate\<close>

lemma bind_err_Inl [simp]: "bind_err (Inl e) f = Inl e"
  by (simp add: bind_err_def)

lemma bind_err_Inr [simp]: "bind_err (Inr x) f = f x"
  by (simp add: bind_err_def)

lemma bind_err_eq_Inr: "bind_err r f = Inr y \<longleftrightarrow> (\<exists>x. r = Inr x \<and> f x = Inr y)"
  by (cases r) simp_all

section \<open>The axes of a source figure that is joined to nothing\<close>

lemma sharing_axis_unbound:
  assumes "0 < i"
    and "\<not> joined (s_xgroup (sf_axes old_fig ! 0)) (s_xgroup (sf_axes old_fig ! i))"
    and "\<not> joined (s_ygroup (sf_axes old_fig ! 0)) (s_ygroup (sf_axes old_fig ! i))"
  shows "sharing_axis fig new_ax_og old_fig i = Inl UnboundLocalError"
  using assms by (simp add: sharing_axis_def)

lemma replot_axes_fails:
  assumes "i \<in> set ixs"
    and "\<And>fig'. \<exists>e. replot_axis old_fig i fig' new_ax_og = Inl e"
  shows "\<exists>e. replot_axes old_fig ixs fig new_ax_og = Inl e"
  using assms(1)
proof (induction ixs arbitrary: fig)
  case Nil
  then show ?case by simp
next
  case (Cons j js)
  show ?case
  proof (cases "replot_axis old_fig j fig new_ax_og")
    case (Inl e)
    then show ?thesis by simp
  next
    case (Inr fig1)
    show ?thesis
    proof (cases "j = i")
      case True
      with assms(2)[of fig] Inr show ?thesis by simp
    next
      case False
      with Cons.prems have "i \<in> set js" by simp
      from Cons.IH[OF this, of fig1] Inr show ?thesis by simp
    qed
  qed
qed

text \<open>
  C9. If a source figure has an axes, other than its first, that is joined to the first
  axes neither on x nor on y, then \<open>sharing_axis\<close> raises \<open>UnboundLocalError\<close> on that axes
  (its variable \<open>new_ax\<close> was never assigned), and \<open>plot_same_new_figure\<close> raises on that
  figure, whatever the composed figure and the destination axes are.
\<close>

theorem unjoined_axes_raises:
  assumes "0 < i" and "i < length (sf_axes old_fig)"
    and "\<not> joined (s_xgroup (sf_axes old_fig ! 0)) (s_xgroup (sf_axes old_fig ! i))"
    and "\<not> joined (s_ygroup (sf_axes old_fig ! 0)) (s_ygroup (sf_axes old_fig ! i))"
  shows "sharing_axis fig new_ax_og old_fig i = Inl UnboundLocalError \<and>
         (\<exists>e. plot_same_new_figure old_fig fig new_ax_og = Inl e)"
proof
  show "sharing_axis fig new_ax_og old_fig i = Inl UnboundLocalError"
    using assms by (simp add: sharing_axis_unbound)
  have "\<And>fig'. \<exists>e. replot_axis old_fig i fig' new_ax_og = Inl e"
    using assms by (simp add: replot_axis_def sharing_axis_unbound)
  moreover have "i \<in> set [0..<length (sf_axes old_fig)]" using assms(2) by simp
  ultimately show "\<exists>e. plot_same_new_figure old_fig fig new_ax_og = Inl e"
    unfolding plot_same_new_figure_def by (rule replot_axes_fails[rotated])
qed

theorem unjoined_axes_raises_witness:
  "(0::nat) < 1 \<and> 1 < length (sf_axes fig_two_axes) \<and>
   sharing_axis fig_one_axes 0 fig_two_axes 1 = Inl UnboundLocalError \<and>
   (\<exists>e. plot_same_new_figure fig_two_axes fig_one_axes 0 = Inl e)"
  using unjoined_axes_raises[of 1 fig_two_axes fig_one_axes 0]
  by (simp add: fig_two_axes_def axes_a_def axes_b_def joined_def)

section \<open>A horizontal segment across the whole x range\<close>

lemma hv_segment_hline:
  assumes "fst xlim \<noteq> snd xlim"
  shows "hv_segment coll xlim ylim i [(fst xlim, y), (snd xlim, y)] fig new_ax = Inl AttributeError"
  using assms by (simp add: hv_segment_def axhline_kw_x_def Let_def)

lemma hv_segments_fails:
  assumes "seg \<in> set segs"
    and "\<And>i fig'. \<exists>e. hv_segment coll xlim ylim i seg fig' new_ax = Inl e"
  shows "\<exists>e. hv_segments coll xlim ylim i segs fig new_ax = Inl e"
  using assms(1)
proof (induction segs arbitrary: i fig)
  case Nil
  then show ?case by simp
next
  case (Cons s ss)
  show ?case
  proof (cases "hv_segment coll xlim ylim i s fig new_ax")
    case (Inl e)
    then show ?thesis by simp
  next
    case (Inr fig1)
    show ?thesis
    proof (cases "s = seg")
      case True
      with assms(2)[of i fig] Inr show ?thesis by simp
    next
      case False
      with Cons.prems have "seg \<in> set ss" by simp
      from Cons.IH[OF this, of "Suc i" fig1] Inr show ?thesis by simp
    qed
  qed
qed

lemma hv_collections_fails:
  assumes "coll \<in> set cs"
    and "\<And>fig'. \<exists>e. hv_segments coll xlim ylim 0 (lc_segments coll) fig' new_ax = Inl e"
  shows "\<exists>e. hv_collections cs xlim ylim fig new_ax = Inl e"
  using assms(1)
proof (induction cs arbitrary: fig)
  case Nil
  then show ?case by simp
next
  case (Cons c cs')
  show ?case
  proof (cases "hv_segments c xlim ylim 0 (lc_segments c) fig new_ax")
    case (Inl e)
    then show ?thesis by simp
  next
    case (Inr fig1)
    show ?thesis
    proof (cases "c = coll")
      case True
      with assms(2)[of fig] Inr show ?thesis by simp
    next
      case False
      with Cons.prems have "coll \<in> set cs'" by simp
      from Cons.IH[OF this, of fig1] Inr show ?thesis by simp
    qed
  qed
qed

lemma line_collections_iff: "c \<in> set (line_collections ch) \<longleftrightarrow> LineCollection c \<in> set ch"
  by (induction ch) (auto simp: line_collections_def split: artist.splits)



section \<open>Redrawing the lines\<close>

lemma length_add_artist [simp]: "length (f_axes (add_artist fig k a)) = length (f_axes fig)"
  by (simp add: add_artist_def upd_axes_def)

lemma children_add_artist:
  "k < length (f_axes fig) \<Longrightarrow>
   a_children (f_axes (add_artist fig k a) ! k) = a_children (f_axes fig ! k) @ [a]"
  by (simp add: add_artist_def upd_axes_def)

lemma recover_line_redrawn:
  assumes "length (l_xdata l) = length (l_ydata l)"
  shows "\<exists>l'. recover_line l fig k = Inr (add_artist fig k (Line2D l')) \<and> redrawn_as l l'"
proof -
  consider (h) "length (l_ydata l) = 2" "hd (l_ydata l) = last (l_ydata l)"
    | (v) "length (l_ydata l) = 2" "hd (l_ydata l) \<noteq> last (l_ydata l)"
          "hd (l_xdata l) = last (l_xdata l)"
    | (p) "length (l_ydata l) = 2" "hd (l_ydata l) \<noteq> last (l_ydata l)"
          "hd (l_xdata l) \<noteq> last (l_xdata l)"
    | (q) "length (l_ydata l) \<noteq> 2"
    by blast
  then show ?thesis
  proof cases
    case h
    then obtain a b where y: "l_ydata l = [a, b]"
      by (cases "l_ydata l"; cases "tl (l_ydata l)") auto
    with h show ?thesis
      by (auto simp: recover_line_def axhline_def redrawn_as_def Let_def)
  next
    case v
    with assms obtain a b where x: "l_xdata l = [a, b]"
      by (cases "l_xdata l"; cases "tl (l_xdata l)") auto
    with v show ?thesis
      by (auto simp: recover_line_def axvline_def redrawn_as_def Let_def)
  next
    case p
    with assms have "l_xdata l \<noteq> []" by auto
    with p assms show ?thesis
      by (auto simp: recover_line_def plot_def redrawn_as_def Let_def)
  next
    case q
    with assms show ?thesis
      by (auto simp: recover_line_def plot_def redrawn_as_def Let_def)
  qed
qed

lemma recover_lines_redrawn:
  assumes "k < length (f_axes fig)"
    and "\<forall>l \<in> set ls. length (l_xdata l) = length (l_ydata l)"
  shows "\<exists>fig' news. recover_lines ls fig k = Inr fig' \<and>
           length (f_axes fig') = length (f_axes fig) \<and>
           a_children (f_axes fig' ! k) = a_children (f_axes fig ! k) @ map Line2D news \<and>
           list_all2 redrawn_as ls news"
  using assms
proof (induction ls arbitrary: fig)
  case Nil
  then show ?case by simp
next
  case (Cons l ls)
  from Cons.prems(2) have "length (l_xdata l) = length (l_ydata l)" by simp
  from recover_line_redrawn[OF this, of fig k] obtain l' where
    l': "recover_line l fig k = Inr (add_artist fig k (Line2D l'))" "redrawn_as l l'" by blast
  let ?f1 = "add_artist fig k (Line2D l')"
  have k1: "k < length (f_axes ?f1)" using Cons.prems(1) by simp
  from Cons.IH[OF k1] Cons.prems(2) obtain fig' news where
    r: "recover_lines ls ?f1 k = Inr fig'" "length (f_axes fig') = length (f_axes ?f1)"
       "a_children (f_axes fig' ! k) = a_children (f_axes ?f1 ! k) @ map Line2D news"
       "list_all2 redrawn_as ls news" by auto
  have "recover_lines (l # ls) fig k = Inr fig'" using l'(1) r(1) by simp
  moreover have "a_children (f_axes fig' ! k)
                   = a_children (f_axes fig ! k) @ map Line2D (l' # news)"
    using r(3) Cons.prems(1) by (simp add: children_add_artist)
  moreover have "list_all2 redrawn_as (l # ls) (l' # news)" using l'(2) r(4) by simp
  ultimately show ?case using r(2) by (metis length_add_artist)
qed




section \<open>Legends\<close>

lemma same_artists_refl [simp]: "same_artists f f"
  by (simp add: same_artists_def)

lemma same_artists_trans: "same_artists f g \<Longrightarrow> same_artists g h \<Longrightarrow> same_artists f h"
  by (simp add: same_artists_def)

lemma upd_legend_nth:
  "f_axes (upd_axes fig k (\<lambda>ax. ax\<lparr>a_legend := v\<rparr>)) ! j =
     (if j = k \<and> k < length (f_axes fig) then (f_axes fig ! k)\<lparr>a_legend := v\<rparr> else f_axes fig ! j)"
  by (cases "k < length (f_axes fig)") (simp_all add: upd_axes_def nth_list_update list_update_beyond)

lemma same_artists_legend [simp]: "same_artists fig (legend fig k hs ls)"
  by (simp add: same_artists_def legend_def upd_legend_nth get_legend_handles_labels_def)
     (simp add: upd_axes_def)

lemma same_artists_drop [simp]: "same_artists fig (drop_legend fig k)"
  by (simp add: same_artists_def drop_legend_def remove_legend_def upd_legend_nth
      get_legend_handles_labels_def) (simp add: upd_axes_def)

lemma legend_at:
  "k < length (f_axes fig) \<Longrightarrow> a_legend (f_axes (legend fig k hs ls) ! j) =
     (if j = k then Some (zip hs ls) else a_legend (f_axes fig ! j))"
  by (simp add: legend_def upd_legend_nth)

lemma drop_legend_at:
  "k < length (f_axes fig) \<Longrightarrow> a_legend (f_axes (drop_legend fig k) ! j) =
     (if j = k then None else a_legend (f_axes fig ! j))"
  by (auto simp add: drop_legend_def remove_legend_def upd_legend_nth)

lemma handles_of_same: "same_artists f g \<Longrightarrow> handles_of g ks = handles_of f ks"
  by (simp add: handles_of_def same_artists_def)

lemma labels_of_same: "same_artists f g \<Longrightarrow> labels_of g ks = labels_of f ks"
  by (simp add: labels_of_def same_artists_def)

lemma legends_axes_same: "same_artists fig (legends_axes ks mat hs ls fig)"
proof (induction ks arbitrary: hs ls fig)
  case Nil
  then show ?case by simp
next
  case (Cons k ks)
  show ?case
    by (auto simp: Let_def split: prod.splits
        intro: same_artists_trans[OF same_artists_legend Cons.IH]
               same_artists_trans[OF same_artists_drop Cons.IH])
qed

lemma legends_axes_other:
  "j \<notin> set ks \<Longrightarrow> \<forall>k \<in> set ks. k < length (f_axes fig) \<Longrightarrow>
   a_legend (f_axes (legends_axes ks mat hs ls fig) ! j) = a_legend (f_axes fig ! j)"
proof (induction ks arbitrary: hs ls fig)
  case Nil
  then show ?case by simp
next
  case (Cons k ks)
  have len1: "\<And>h l. \<forall>i \<in> set ks. i < length (f_axes (legend fig k h l))"
    using Cons.prems(2) same_artists_legend[of fig] by (simp add: same_artists_def)
  have len2: "\<forall>i \<in> set ks. i < length (f_axes (drop_legend fig k))"
    using Cons.prems(2) same_artists_drop[of fig] by (simp add: same_artists_def)
  from Cons.prems have jk: "j \<noteq> k" "j \<notin> set ks" "k < length (f_axes fig)" by auto
  show ?case
    using jk Cons.IH[OF jk(2) len1] Cons.IH[OF jk(2) len2]
    by (auto simp: Let_def legend_at drop_legend_at split: prod.splits)
qed


lemma handles_of_Cons:
  "handles_of fig (k # ks) = fst (get_legend_handles_labels (f_axes fig ! k)) @ handles_of fig ks"
  by (simp add: handles_of_def)

lemma labels_of_Cons:
  "labels_of fig (k # ks) = snd (get_legend_handles_labels (f_axes fig ! k)) @ labels_of fig ks"
  by (simp add: labels_of_def)

lemma handles_of_Nil [simp]: "handles_of fig [] = []"
  by (simp add: handles_of_def)

lemma labels_of_Nil [simp]: "labels_of fig [] = []"
  by (simp add: labels_of_def)

lemma legends_axes_at:
  assumes "distinct ks" and "\<forall>k \<in> set ks. k < length (f_axes fig)" and "j \<in> set ks"
  shows "a_legend (f_axes (legends_axes ks mat hs ls fig) ! j) =
     (if j \<in> set (last mat) \<and> j = last (last mat)
      then Some (zip (hs @ handles_of fig (filter (\<lambda>x. x \<in> set (last mat))
                                             (takeWhile (\<lambda>x. x \<noteq> j) ks @ [j])))
                     (ls @ labels_of fig (filter (\<lambda>x. x \<in> set (last mat))
                                             (takeWhile (\<lambda>x. x \<noteq> j) ks @ [j]))))
      else None)"
  using assms
proof (induction ks arbitrary: hs ls fig)
  case Nil
  then show ?case by simp
next
  case (Cons k ks)
  obtain h l where hl: "get_legend_handles_labels (f_axes fig ! k) = (h, l)"
    by (cases "get_legend_handles_labels (f_axes fig ! k)")
  from Cons.prems have k: "k < length (f_axes fig)" "k \<notin> set ks" "distinct ks" by auto
  have len1: "\<And>a b. \<forall>i \<in> set ks. i < length (f_axes (legend fig k a b))"
    using Cons.prems(2) same_artists_legend[of fig] by (simp add: same_artists_def)
  have len2: "\<forall>i \<in> set ks. i < length (f_axes (drop_legend fig k))"
    using Cons.prems(2) same_artists_drop[of fig] by (simp add: same_artists_def)
  show ?case
  proof (cases "j = k")
    case True
    then show ?thesis
      using k hl legends_axes_other[OF k(2) len1] legends_axes_other[OF k(2) len2]
      by (auto simp: Let_def legend_at drop_legend_at handles_of_Cons labels_of_Cons)
  next
    case False
    with Cons.prems have j: "j \<in> set ks" by simp
    note ih1 = Cons.IH[OF k(3) len1 j]
    note ih2 = Cons.IH[OF k(3) len2 j]
    have s1: "\<And>a b xs. handles_of (legend fig k a b) xs = handles_of fig xs"
      by (rule handles_of_same) simp
    have s2: "\<And>xs. handles_of (drop_legend fig k) xs = handles_of fig xs"
      by (rule handles_of_same) simp
    have s3: "\<And>a b xs. labels_of (legend fig k a b) xs = labels_of fig xs"
      by (rule labels_of_same) simp
    have s4: "\<And>xs. labels_of (drop_legend fig k) xs = labels_of fig xs"
      by (rule labels_of_same) simp
    have tw: "takeWhile (\<lambda>x. x \<noteq> j) (k # ks) = k # takeWhile (\<lambda>x. x \<noteq> j) ks"
      using False by simp
    consider (a) "k \<in> set (last mat)" "k = last (last mat)"
      | (b) "k \<in> set (last mat)" "k \<noteq> last (last mat)"
      | (c) "k \<notin> set (last mat)" by blast
    then show ?thesis
    proof cases
      case a
      have step: "legends_axes (k # ks) mat hs ls fig =
                  legends_axes ks mat (hs @ h) (ls @ l) (legend fig k (hs @ h) (ls @ l))"
        using a hl by (simp add: Let_def)
      show ?thesis unfolding step ih1 using a False by simp
    next
      case b
      have step: "legends_axes (k # ks) mat hs ls fig =
                  legends_axes ks mat (hs @ h) (ls @ l) (drop_legend fig k)"
        using b hl by (simp add: Let_def)
      show ?thesis unfolding step ih2 tw using b hl
        by (auto simp add: s2 s4 handles_of_Cons labels_of_Cons)
    next
      case c
      have step: "legends_axes (k # ks) mat hs ls fig =
                  legends_axes ks mat hs ls (drop_legend fig k)"
        using c by simp
      show ?thesis unfolding step ih2 tw using c
        by (auto simp add: s2 s4)
    qed
  qed
qed


lemma takeWhile_last: "distinct xs \<Longrightarrow> xs \<noteq> [] \<Longrightarrow> takeWhile (\<lambda>x. x \<noteq> last xs) xs @ [last xs] = xs"
proof (induction xs)
  case Nil
  then show ?case by simp
next
  case (Cons x xs)
  show ?case
  proof (cases "xs = []")
    case True
    then show ?thesis by simp
  next
    case False
    with Cons.prems have "x \<noteq> last xs" by auto
    with False Cons show ?thesis by simp
  qed
qed

lemma filter_upt_suffix:
  assumes "a \<le> c" "c \<le> b"
  shows "filter (\<lambda>x. x \<in> set [c..<b]) [a..<b] = [c..<b]"
proof -
  have "[a..<b] = [a..<c] @ [c..<b]" using assms by (metis le_Suc_ex upt_add_eq_append)
  moreover have "filter (\<lambda>x. x \<in> set [c..<b]) [a..<c] = []" by (auto simp: filter_empty_conv)
  moreover have "filter (\<lambda>x. x \<in> set [c..<b]) [c..<b] = [c..<b]" by (simp add: filter_True del: set_upt)
  ultimately show ?thesis by (simp del: set_upt)
qed

lemma legends_mat_block:
  assumes "row_block (length (f_axes fig)) mat a c b"
  shows "\<exists>fig'. legends_mat mat fig = Inr fig' \<and> same_artists fig fig' \<and>
           (\<forall>j. a_legend (f_axes fig' ! j) =
               (if a \<le> j \<and> j < b
                then (if j = last (last mat)
                      then Some (zip (handles_of fig (last mat)) (labels_of fig (last mat)))
                      else None)
                else a_legend (f_axes fig ! j)))"
proof -
  from assms have m: "concat mat = [a..<b]" "last mat = [c..<b]" "a \<le> c" "c < b"
    "b \<le> length (f_axes fig)" by (simp_all add: row_block_def)
  have ab: "a < b" using m by simp
  let ?ks = "[a..<b]"
  have hd: "hd ?ks = a" using ab by simp
  have lst: "last ?ks = b - 1" using ab by simp
  have ks: "[hd ?ks..<min (Suc (last ?ks)) (length (f_axes fig))] = ?ks"
    using ab m(5) by (simp add: hd lst min_def)
  let ?fig' = "legends_axes ?ks mat [] [] fig"
  have run: "legends_mat mat fig = Inr ?fig'"
    using ab ks unfolding legends_mat_def m(1) Let_def by simp
  have inr: "\<forall>k \<in> set ?ks. k < length (f_axes fig)" using m(5) by simp
  have lastlast: "last (last mat) = b - 1" using m(2,4) by simp
  have tw: "takeWhile (\<lambda>x. x \<noteq> b - 1) ?ks @ [b - 1] = ?ks"
    using takeWhile_last[of ?ks] ab lst by simp
  have "a_legend (f_axes ?fig' ! j) =
               (if a \<le> j \<and> j < b
                then (if j = last (last mat)
                      then Some (zip (handles_of fig (last mat)) (labels_of fig (last mat)))
                      else None)
                else a_legend (f_axes fig ! j))" for j
  proof (cases "a \<le> j \<and> j < b")
    case True
    then have jin: "j \<in> set ?ks" by simp
    have cond: "(j \<in> set (last mat) \<and> j = last (last mat)) = (j = b - 1)"
      using m(2,4) True lastlast by auto
    show ?thesis
    proof (cases "j = b - 1")
      case True
      have f: "filter (\<lambda>x. x \<in> set (last mat)) ?ks = last mat"
        unfolding m(2) using filter_upt_suffix[of a c b] m(3,4) by simp
      show ?thesis
        using legends_axes_at[OF _ inr jin, of mat "[]" "[]"] cond True tw lastlast \<open>a \<le> j \<and> j < b\<close>
        by (simp add: f del: set_upt)
    next
      case False
      then show ?thesis
        using legends_axes_at[OF _ inr jin, of mat "[]" "[]"] cond lastlast \<open>a \<le> j \<and> j < b\<close>
        by (simp del: set_upt)
    qed
  next
    case False
    then have "j \<notin> set ?ks" by auto
    from legends_axes_other[OF this inr] False show ?thesis by auto
  qed
  with run legends_axes_same[of fig ?ks mat "[]" "[]"] show ?thesis by blast
qed


lemma legends_seq:
  assumes "\<forall>mat \<in> set ms. \<exists>a c b. row_block (length (f_axes fig)) mat a c b"
    and "distinct (concat (concat ms))"
  shows "\<exists>fig'. legends_only_last_subplot fig ms = Inr fig' \<and> same_artists fig fig' \<and>
           (\<forall>mat \<in> set ms. \<forall>j \<in> set (concat mat). a_legend (f_axes fig' ! j) =
               (if j = last (last mat)
                then Some (zip (handles_of fig (last mat)) (labels_of fig (last mat)))
                else None)) \<and>
           (\<forall>j. j \<notin> set (concat (concat ms)) \<longrightarrow>
               a_legend (f_axes fig' ! j) = a_legend (f_axes fig ! j))"
  using assms
proof (induction ms arbitrary: fig)
  case Nil
  then show ?case by simp
next
  case (Cons mat ms)
  from Cons.prems(1) obtain a c b where rb: "row_block (length (f_axes fig)) mat a c b"
    by auto
  from legends_mat_block[OF rb] obtain fig1 where
    f1: "legends_mat mat fig = Inr fig1" "same_artists fig fig1"
        "\<And>j. a_legend (f_axes fig1 ! j) =
               (if a \<le> j \<and> j < b
                then (if j = last (last mat)
                      then Some (zip (handles_of fig (last mat)) (labels_of fig (last mat)))
                      else None)
                else a_legend (f_axes fig ! j))" by blast
  have len1: "length (f_axes fig1) = length (f_axes fig)"
    using f1(2) by (simp add: same_artists_def)
  have p1: "\<forall>m \<in> set ms. \<exists>a c b. row_block (length (f_axes fig1)) m a c b"
    using Cons.prems(1) len1 by simp
  have p2: "distinct (concat (concat ms))" using Cons.prems(2) by simp
  from Cons.IH[OF p1 p2] obtain fig' where
    f': "legends_only_last_subplot fig1 ms = Inr fig'" "same_artists fig1 fig'"
        "\<forall>m \<in> set ms. \<forall>j \<in> set (concat m). a_legend (f_axes fig' ! j) =
               (if j = last (last m)
                then Some (zip (handles_of fig1 (last m)) (labels_of fig1 (last m)))
                else None)"
        "\<forall>j. j \<notin> set (concat (concat ms)) \<longrightarrow>
               a_legend (f_axes fig' ! j) = a_legend (f_axes fig1 ! j)" by blast
  have flat: "concat mat = [a..<b]" using rb by (simp add: row_block_def)
  have disj: "set (concat mat) \<inter> set (concat (concat ms)) = {}"
    using Cons.prems(2) by simp
  have run: "legends_only_last_subplot fig (mat # ms) = Inr fig'"
    using f1(1) f'(1) by simp
  have sa: "same_artists fig fig'" using f1(2) f'(2) by (rule same_artists_trans)
  have A: "\<forall>j \<in> set (concat mat). a_legend (f_axes fig' ! j) =
               (if j = last (last mat)
                then Some (zip (handles_of fig (last mat)) (labels_of fig (last mat)))
                else None)"
  proof
    fix j assume j: "j \<in> set (concat mat)"
    then have "j \<notin> set (concat (concat ms))" using disj by blast
    then have "a_legend (f_axes fig' ! j) = a_legend (f_axes fig1 ! j)" using f'(4) by simp
    moreover have "a \<le> j \<and> j < b" using j flat by simp
    ultimately show "a_legend (f_axes fig' ! j) =
               (if j = last (last mat)
                then Some (zip (handles_of fig (last mat)) (labels_of fig (last mat)))
                else None)" using f1(3)[of j] by simp
  qed
  have B: "\<forall>m \<in> set ms. \<forall>j \<in> set (concat m). a_legend (f_axes fig' ! j) =
               (if j = last (last m)
                then Some (zip (handles_of fig (last m)) (labels_of fig (last m)))
                else None)"
    using f'(3) by (simp add: handles_of_same[OF f1(2)] labels_of_same[OF f1(2)])
  have C: "\<forall>j. j \<notin> set (concat (concat (mat # ms))) \<longrightarrow>
               a_legend (f_axes fig' ! j) = a_legend (f_axes fig ! j)"
  proof (intro allI impI)
    fix j assume j: "j \<notin> set (concat (concat (mat # ms)))"
    then have "j \<notin> set (concat (concat ms))" "\<not> (a \<le> j \<and> j < b)" using flat by auto
    then show "a_legend (f_axes fig' ! j) = a_legend (f_axes fig ! j)"
      using f'(4) f1(3)[of j] by auto
  qed
  from run sa A B C show ?case by simp
qed

lemma upt_middle:
  assumes "xs @ ys @ zs = [0..<n]"
  shows "ys = [length xs..<length xs + length ys]" and "length xs + length ys \<le> n"
proof -
  have len: "length xs + length ys + length zs = n"
    using arg_cong[OF assms, of length] by simp
  then show "length xs + length ys \<le> n" by simp
  have "ys = take (length ys) (drop (length xs) (xs @ ys @ zs))" by simp
  also have "\<dots> = take (length ys) (drop (length xs) [0..<n])" by (simp only: assms)
  also have "\<dots> = [length xs..<length xs + length ys]"
    using len by (simp add: take_upt)
  finally show "ys = [length xs..<length xs + length ys]" .
qed

lemma grid_index_row_block:
  assumes "grid_index n tens" and "mat \<in> set tens"
  shows "\<exists>a c b. row_block n mat a c b"
proof -
  from assms have all: "concat (concat (rev tens)) = [0..<n]"
    and ne: "mat \<noteq> []" "\<forall>c \<in> set mat. c \<noteq> []" by (auto simp: grid_index_def)
  from assms(2) have "mat \<in> set (rev tens)" by simp
  then obtain A B where AB: "rev tens = A @ mat # B" by (auto simp: in_set_conv_decomp)
  let ?xs = "concat (concat A)"
  let ?zs = "concat (concat B)"
  have e1: "?xs @ concat mat @ ?zs = [0..<n]" using all AB by simp
  have bl: "mat = butlast mat @ [last mat]" using ne(1) by simp
  have cm: "concat mat = concat (butlast mat) @ last mat"
    using arg_cong[OF bl, of concat] by simp
  have lne: "last mat \<noteq> []" using ne by simp
  have e2: "(?xs @ concat (butlast mat)) @ last mat @ ?zs = [0..<n]" using e1 cm by simp
  let ?a = "length ?xs"
  let ?c = "length ?xs + length (concat (butlast mat))"
  let ?b = "length ?xs + length (concat mat)"
  have "concat mat = [?a..<?b]" using upt_middle(1)[OF e1] .
  moreover have "?b \<le> n" using upt_middle(2)[OF e1] .
  moreover have "last mat = [?c..<?b]" using upt_middle(1)[OF e2] cm by (simp add: add.assoc)
  moreover have "?c < ?b" using cm lne by simp
  ultimately have "row_block n mat ?a ?c ?b" using ne(1) by (simp add: row_block_def)
  then show ?thesis by blast
qed

lemma grid_index_distinct:
  assumes "grid_index n tens"
  shows "distinct (concat (concat tens))"
proof -
  have "mset (concat (concat (rev tens))) = mset (concat (concat tens))"
    by (induction tens) (simp_all add: ac_simps)
  moreover have "distinct (concat (concat (rev tens)))"
    using assms by (simp add: grid_index_def)
  ultimately show ?thesis by (metis mset_eq_imp_distinct_iff)
qed

text \<open>
  C3. On a figure with its grid index, \<open>legends_only_last_subplot\<close> returns, and in each row
  of the grid index exactly one axes carries a legend afterwards: the one whose index is
  the last entry of the last subplot of the row. Its legend pairs the concatenated legend
  handles with the concatenated legend labels of the axes of that last subplot. Every
  other axes of the row has no legend.
\<close>

theorem legend_on_last_axes_of_row:
  assumes "grid_index (length (f_axes fig)) tens"
  shows "\<exists>fig'. legends_only_last_subplot fig tens = Inr fig' \<and>
           length (f_axes fig') = length (f_axes fig) \<and>
           (\<forall>mat \<in> set tens. \<forall>j \<in> set (concat mat). a_legend (f_axes fig' ! j) =
               (if j = last (last mat)
                then Some (zip (handles_of fig (last mat)) (labels_of fig (last mat)))
                else None))"
proof -
  have "\<forall>mat \<in> set tens. \<exists>a c b. row_block (length (f_axes fig)) mat a c b"
    using grid_index_row_block[OF assms] by blast
  from legends_seq[OF this grid_index_distinct[OF assms]] show ?thesis
    by (auto simp: same_artists_def)
qed


theorem legend_on_last_axes_of_row_witness:
  "grid_index (length (f_axes fig_row)) tens_row \<and>
   (\<exists>fig'. legends_only_last_subplot fig_row tens_row = Inr fig' \<and>
           length (f_axes fig') = length (f_axes fig_row) \<and>
           (\<forall>mat \<in> set tens_row. \<forall>j \<in> set (concat mat). a_legend (f_axes fig' ! j) =
               (if j = last (last mat)
                then Some (zip (handles_of fig_row (last mat)) (labels_of fig_row (last mat)))
                else None)))"
proof -
  have "[0..<4] = [0, 1, 2, 3]" by (simp add: upt_rec)
  then have g: "grid_index (length (f_axes fig_row)) tens_row"
    by (simp add: grid_index_def fig_row_def tens_row_def)
  from legend_on_last_axes_of_row[OF g] g show ?thesis by blast
qed

section \<open>Running the program on a given input\<close>

text \<open>
  Evaluation follows the order of the program: the argument of a bind, a case or a let
  before its body.
\<close>

lemma bind_err_weak_cong: "r = r' \<Longrightarrow> bind_err r f = bind_err r' f"
  by simp

lemmas eval_congs = bind_err_weak_cong sum.case_cong_weak prod.case_cong_weak
  option.case_cong_weak list.case_cong_weak if_weak_cong let_weak_cong
  locator.case_cong_weak artist.case_cong_weak container.case_cong_weak

lemmas library_calls = new_axes_def upd_axes_def upd_shared_def set_xlim_def set_ylim_def
  set_xlocator_def set_xformatter_def set_yformatter_def set_xticks_def set_xticklabels_def
  twinned_def set_position_def add_artist_def plot_def axhline_def axvline_def
  twinx_def twiny_def group_of_def subplot_position_def add_subplot_def legend_def
  remove_legend_def get_legend_handles_labels_def legend_handles_labels_def legend_label_def
  plt_figure_def next_num_def max_open_warning_def savefig_def joined_def

lemmas layout_calls = sharing_axis_def get_lines_def line_collections_def poly_collections_def
  path_collections_def rectangles_def recover_line_def recover_Line2D_def
  recover_hlines_vlines_def errorbar_collections_def recover_errorbars_def
  recover_fill_between_def recover_scatter_def recover_barplot_def
  recover_axis_formatting_def recover_axis_position_def recover_legend_def replot_axis_def
  plot_same_new_figure_def np_array_flat_def reshape_def cell_position_def
  print_into_row_subplots_def max_list_def min_list_def create_figure_def
  legends_mat_def drop_legend_def clear_ylabel_def np_shape1_def ylims_col_def
  set_common_xlims_def axes_at_def add_column_titles_def fig_align_ylabels_def
  align_ylabels_def

lemmas example_figures = line_a_def line_b_def axes_a_def axes_b_def fig_plain_def
  fig_twinx_def fig_twiny_def fig_two_axes_def world0_def

lemmas upt_small = upt_rec[of 0 1] upt_rec[of 0 2] upt_rec[of 1 2] upt_rec[of 0 3]
  upt_rec[of 1 3] upt_rec[of 2 3] upt_rec[of 0 4] upt_rec[of 1 4] upt_rec[of 2 4]
  upt_rec[of 3 4]

section \<open>Common y limits\<close>

lemma upt_0_2: "[0..<2] = [0, 1]"
  by (simp add: upt_rec)

lemma upt_0_4: "[0..<4] = [0, 1, 2, 3]"
  by (simp add: upt_rec)

text \<open>
  C2 on a row whose first subplot has a \<open>twinx\<close> twin and whose second subplot has a \<open>twiny\<close>
  twin. The axes 0 and 2 are at position 0 of their subplots, the axes 1 and 3 at position
  1, and the axes 2 and 3 share their y axis. Position 0 gets the limits \<open>(0, 1)\<close>; position
  1 then gets \<open>(0, 20)\<close>, which the axes 3 passes on to the axes 2. The axes 0 and 2 end
  with different limits.
\<close>

theorem set_common_ylims_shared_y:
  "map_sum id (\<lambda>fig. map a_ylim (f_axes fig)) (set_common_ylims fig_row tens_row)
     = Inr [(0, 1), (0, 20), (0, 20), (0, 20)]"
  by (simp add: tens_row_def fig_row_def np_shape1_def upt_0_2 upt_0_4 ylims_col_def
      bind_err_def axes_og_def new_axes_def min_list_def max_list_def set_ylim_def
      upd_shared_def joined_def Let_def)

text \<open>
  The row above is what \<open>create_figure\<close> makes of a grid with a \<open>twinx\<close> figure and a \<open>twiny\<close>
  figure, as far as the y limits and the shared axes go; and \<open>master_plot\<close> returns on this
  grid, with the y limits that \<open>set_common_ylims\<close> left.
\<close>

lemma create_figure_twinx_twiny:
  "map_sum id (\<lambda>(fig, tens). (map a_ylim (f_axes fig), map a_xgroup (f_axes fig),
                               map a_ygroup (f_axes fig), tens))
     (fst (create_figure [[fig_twinx, fig_twiny]] [''a'', ''b''] (3 / 100) world0))
   = Inr (map a_ylim (f_axes fig_row), map a_xgroup (f_axes fig_row),
          map a_ygroup (f_axes fig_row), tens_row)"
  by (simp add: library_calls layout_calls example_figures Let_def upt_small
      fig_row_def tens_row_def axes_og_def cong: eval_congs)

lemma master_plot_twinx_twiny:
  "map_sum id (\<lambda>(fig, tens). (map a_ylim (f_axes fig), tens))
     (fst (master_plot [[fig_twinx, fig_twiny]] [''a'', ''b''] (3 / 100) None
             (SharexBool False) world0))
   = Inr ([(0, 1), (0, 20), (0, 20), (0, 20)], [[[0, 1], [2, 3]]])"
  by (simp add: library_calls layout_calls example_figures Let_def master_plot_def
      upt_small cong: eval_congs)

section \<open>The grid index that create\_figure builds\<close>

lemma n_axes_upd_axes [simp]: "n_axes (upd_axes fig k f) = n_axes fig"
  by (simp add: n_axes_def upd_axes_def)

lemma n_axes_upd_shared [simp]: "n_axes (upd_shared g fig k f) = n_axes fig"
  by (simp add: n_axes_def upd_shared_def)

lemma n_axes_setters [simp]:
  "n_axes (set_xlim fig k lm) = n_axes fig"
  "n_axes (set_ylim fig k lm) = n_axes fig"
  "n_axes (set_xlocator fig k loc) = n_axes fig"
  "n_axes (set_xformatter fig k fm) = n_axes fig"
  "n_axes (set_yformatter fig k fm) = n_axes fig"
  "n_axes (set_xticks fig k ts) = n_axes fig"
  "n_axes (set_position fig k pos) = n_axes fig"
  "n_axes (add_artist fig k a) = n_axes fig"
  "n_axes (add_collection fig k c) = n_axes fig"
  "n_axes (legend fig k hs ls) = n_axes fig"
  "n_axes (remove_legend fig k) = n_axes fig"
  by (simp_all add: set_xlim_def set_ylim_def set_xlocator_def set_xformatter_def
      set_yformatter_def set_xticks_def add_artist_def add_collection_def legend_def
      remove_legend_def)
     (simp add: n_axes_def set_position_def)

lemma n_axes_draw [simp]:
  "n_axes (axhline fig k y col ls lw al lab) = n_axes fig"
  "n_axes (axvline fig k x col ls lw al lab) = n_axes fig"
  "n_axes (vlines fig k x y0 y1 c ls lw al lab) = n_axes fig"
  "n_axes (bar fig k x h wd fc ec lw ls al) = n_axes fig"
  by (simp_all add: axhline_def axvline_def vlines_def bar_def Let_def)

lemma n_axes_plot: "plot fig k xs ys lab col ls = Inr fig' \<Longrightarrow> n_axes fig' = n_axes fig"
  by (auto simp: plot_def split: if_splits)

lemma n_axes_fill_between:
  "fill_between fig k x y1 y2 col al = Inr fig' \<Longrightarrow> n_axes fig' = n_axes fig"
  by (auto simp: fill_between_def Let_def split: if_splits)

lemma n_axes_scatter:
  "scatter fig k pts s c ec al lab = Inr fig' \<Longrightarrow> n_axes fig' = n_axes fig"
  by (auto simp: scatter_def Let_def split: if_splits option.splits)

lemma n_axes_set_xticklabels:
  "set_xticklabels fig k labs = Inr fig' \<Longrightarrow> n_axes fig' = n_axes fig"
  by (auto simp: set_xticklabels_def split: locator.splits if_splits)


lemma n_axes_recover_line: "recover_line l fig k = Inr fig' \<Longrightarrow> n_axes fig' = n_axes fig"
  by (auto simp: recover_line_def Let_def dest: n_axes_plot split: if_splits)

lemma n_axes_recover_lines: "recover_lines ls fig k = Inr fig' \<Longrightarrow> n_axes fig' = n_axes fig"
  by (induction ls arbitrary: fig) (auto simp: bind_err_eq_Inr dest: n_axes_recover_line)

lemma n_axes_recover_Line2D: "recover_Line2D old_ax fig k = Inr fig' \<Longrightarrow> n_axes fig' = n_axes fig"
  unfolding recover_Line2D_def by (rule n_axes_recover_lines)

lemma n_axes_eb_segment: "eb_segment c i seg fig k = Inr fig' \<Longrightarrow> n_axes fig' = n_axes fig"
  by (auto simp: eb_segment_def bind_err_eq_Inr Let_def split: if_splits prod.splits)

lemma n_axes_eb_segments: "eb_segments c i segs fig k = Inr fig' \<Longrightarrow> n_axes fig' = n_axes fig"
  by (induction segs arbitrary: fig i) (auto simp: bind_err_eq_Inr dest: n_axes_eb_segment)

lemma n_axes_eb_collections: "eb_collections cs fig k = Inr fig' \<Longrightarrow> n_axes fig' = n_axes fig"
  by (induction cs arbitrary: fig) (auto simp: bind_err_eq_Inr dest: n_axes_eb_segments)

lemma n_axes_recover_errorbars:
  "recover_errorbars old_ax fig k = Inr fig' \<Longrightarrow> n_axes fig' = n_axes fig"
  unfolding recover_errorbars_def by (rule n_axes_eb_collections)

lemma n_axes_hv_segment:
  "hv_segment c xl yl i seg fig k = Inr fig' \<Longrightarrow> n_axes fig' = n_axes fig"
  by (auto simp: hv_segment_def bind_err_eq_Inr Let_def axhline_kw_x_def
      split: if_splits prod.splits)

lemma n_axes_hv_segments:
  "hv_segments c xl yl i segs fig k = Inr fig' \<Longrightarrow> n_axes fig' = n_axes fig"
  by (induction segs arbitrary: fig i) (auto simp: bind_err_eq_Inr dest: n_axes_hv_segment)

lemma n_axes_hv_collections:
  "hv_collections cs xl yl fig k = Inr fig' \<Longrightarrow> n_axes fig' = n_axes fig"
  by (induction cs arbitrary: fig) (auto simp: bind_err_eq_Inr dest: n_axes_hv_segments)

lemma n_axes_recover_hlines_vlines:
  "recover_hlines_vlines old_ax fig k = Inr fig' \<Longrightarrow> n_axes fig' = n_axes fig"
  unfolding recover_hlines_vlines_def by (rule n_axes_hv_collections)

lemma n_axes_fill_path: "fill_path p verts fig k = Inr fig' \<Longrightarrow> n_axes fig' = n_axes fig"
  by (auto simp: fill_path_def Let_def dest: n_axes_fill_between split: list.splits)

lemma n_axes_fill_paths: "fill_paths p ps fig k = Inr fig' \<Longrightarrow> n_axes fig' = n_axes fig"
  by (induction ps arbitrary: fig) (auto simp: bind_err_eq_Inr dest: n_axes_fill_path)

lemma n_axes_fill_polys: "fill_polys ps fig k = Inr fig' \<Longrightarrow> n_axes fig' = n_axes fig"
  by (induction ps arbitrary: fig) (auto simp: bind_err_eq_Inr dest: n_axes_fill_paths)

lemma n_axes_recover_fill_between:
  "recover_fill_between old_ax fig k = Inr fig' \<Longrightarrow> n_axes fig' = n_axes fig"
  unfolding recover_fill_between_def by (rule n_axes_fill_polys)

lemma n_axes_recover_scatters:
  "recover_scatters scs fig k = Inr fig' \<Longrightarrow> n_axes fig' = n_axes fig"
  by (induction scs arbitrary: fig)
     (auto simp: bind_err_eq_Inr recover_one_scatter_def dest: n_axes_scatter)

lemma n_axes_recover_scatter:
  "recover_scatter old_ax fig k = Inr fig' \<Longrightarrow> n_axes fig' = n_axes fig"
  unfolding recover_scatter_def by (rule n_axes_recover_scatters)

lemma n_axes_replot_bars: "replot_bars bs fig k = (fig', nb) \<Longrightarrow> n_axes fig' = n_axes fig"
  by (induction bs arbitrary: fig nb) (auto simp: Let_def split: prod.splits)

lemma n_axes_set_bar_label [simp]: "n_axes (set_bar_label fig k nb lab) = n_axes fig"
  by (simp add: set_bar_label_def)

lemma n_axes_label_first:
  "label_first bars t lab fig k = Inr fig' \<Longrightarrow> n_axes fig' = n_axes fig"
  by (induction bars) (auto split: option.splits if_splits)

lemma n_axes_label_bars:
  "label_bars hs bars fig k = Inr fig' \<Longrightarrow> n_axes fig' = n_axes fig"
  by (induction hs arbitrary: fig) (auto simp: bind_err_eq_Inr dest!: n_axes_label_first)

lemma n_axes_recover_barplot:
  "recover_barplot old_ax fig k = Inr fig' \<Longrightarrow> n_axes fig' = n_axes fig"
  by (auto simp: recover_barplot_def Let_def dest!: n_axes_label_bars n_axes_replot_bars
      split: prod.splits)

lemma n_axes_recover_axis_formatting:
  "recover_axis_formatting old_ax fig k = Inr fig' \<Longrightarrow> n_axes fig' = n_axes fig"
  by (auto simp: recover_axis_formatting_def Let_def bind_err_eq_Inr
      dest!: n_axes_set_xticklabels)

lemma n_axes_recover_axis_position [simp]:
  "n_axes (recover_axis_position old_ax fig k) = n_axes fig"
  by (simp add: recover_axis_position_def)

lemma n_axes_recover_legend [simp]: "n_axes (recover_legend old_ax fig k) = n_axes fig"
  by (simp add: recover_legend_def split: prod.splits)

lemma n_axes_twinx: "twinx fig k = (fig', n) \<Longrightarrow> n_axes fig' = Suc (n_axes fig)"
  by (auto simp: twinx_def Let_def n_axes_def upd_axes_def)

lemma n_axes_twiny: "twiny fig k = (fig', n) \<Longrightarrow> n_axes fig' = Suc (n_axes fig)"
  by (auto simp: twiny_def Let_def n_axes_def upd_axes_def)

lemma n_axes_sharing_axis:
  "sharing_axis fig og old_fig i = Inr (fig', k) \<Longrightarrow> n_axes fig' = n_axes fig + twins_made old_fig i"
  by (auto simp: sharing_axis_def twins_made_def Let_def dest!: n_axes_twinx n_axes_twiny
      split: if_splits prod.splits option.splits)

lemma n_axes_replot_axis:
  "replot_axis old_fig i fig og = Inr fig' \<Longrightarrow> n_axes fig' = n_axes fig + twins_made old_fig i"
  by (auto simp: replot_axis_def bind_err_eq_Inr Let_def
      dest!: n_axes_sharing_axis n_axes_recover_Line2D n_axes_recover_errorbars
        n_axes_recover_hlines_vlines n_axes_recover_fill_between n_axes_recover_scatter
        n_axes_recover_barplot n_axes_recover_axis_formatting)

lemma n_axes_replot_axes:
  "replot_axes old_fig is fig og = Inr fig' \<Longrightarrow>
   n_axes fig' = n_axes fig + sum_list (map (twins_made old_fig) is)"
  by (induction "is" arbitrary: fig) (auto simp: bind_err_eq_Inr dest!: n_axes_replot_axis)

lemma n_axes_plot_same_new_figure:
  "plot_same_new_figure old_fig fig og = Inr fig' \<Longrightarrow> n_axes fig' + 1 = n_axes fig + axes_made old_fig"
  by (auto simp: plot_same_new_figure_def axes_made_def dest!: n_axes_replot_axes)

lemma n_axes_add_subplot:
  "add_subplot fig r c n = Inr (fig', k) \<Longrightarrow> n_axes fig' = Suc (n_axes fig)"
  by (auto simp: add_subplot_def n_axes_def split: if_splits)


lemma n_axes_fold_set_position [simp]:
  "n_axes (fold (\<lambda>n fg. set_position fg n pos) vec fig) = n_axes fig"
  by (induction vec arbitrary: fig) simp_all

lemma length_f_axes: "length (f_axes fig) = n_axes fig"
  by (simp add: n_axes_def)

lemma print_row_spec:
  assumes "print_row nrows ncols pad i j fs new_fig num_ax = Inr (fig', num_ax', mat)"
    and "num_ax = n_axes new_fig"
  shows "num_ax' = n_axes fig' \<and> num_ax \<le> num_ax' \<and> map length mat = map axes_made fs \<and>
         concat mat = [num_ax..<num_ax']"
  using assms
proof (induction fs arbitrary: j new_fig num_ax mat)
  case Nil
  then show ?case by auto
next
  case (Cons f fs)
  from Cons.prems(1) obtain fig1 ax fig2 where
    s1: "add_subplot new_fig nrows ncols (i * ncols + j + 1) = Inr (fig1, ax)"
    and s2: "plot_same_new_figure f fig1 ax = Inr fig2"
    by (auto simp: bind_err_eq_Inr)
  let ?vec = "[num_ax..<num_ax + (n_axes fig2 - num_ax)]"
  let ?fig3 = "fold (\<lambda>n fg. set_position fg n (cell_position nrows ncols pad i j)) ?vec fig2"
  from Cons.prems(1) s1 s2 obtain mat' where
    s3: "print_row nrows ncols pad i (Suc j) fs ?fig3 (n_axes ?fig3) = Inr (fig', num_ax', mat')"
    and m: "mat = ?vec # mat'"
    by (auto simp: bind_err_eq_Inr Let_def length_f_axes)
  have n2: "n_axes fig2 = num_ax + axes_made f"
    using n_axes_add_subplot[OF s1] n_axes_plot_same_new_figure[OF s2] Cons.prems(2) by simp
  from Cons.IH[OF s3] have ih: "num_ax' = n_axes fig'" "n_axes ?fig3 \<le> num_ax'"
    "map length mat' = map axes_made fs" "concat mat' = [n_axes ?fig3..<num_ax']" by simp_all
  have n3: "n_axes ?fig3 = num_ax + axes_made f" using n2 by simp
  have vec: "?vec = [num_ax..<num_ax + axes_made f]" using n2 by simp
  have "concat mat = [num_ax..<num_ax + axes_made f] @ [num_ax + axes_made f..<num_ax']"
    using m vec ih(4) n3 by simp
  also have "\<dots> = [num_ax..<num_ax']"
    using ih(2) n3 by (metis le_Suc_ex upt_add_eq_append le_add1)
  finally have "concat mat = [num_ax..<num_ax']" .
  moreover have "map length mat = map axes_made (f # fs)" using m vec ih(3) by simp
  moreover have "num_ax \<le> num_ax'" using ih(2) n3 by simp
  ultimately show ?case using ih(1) by simp
qed

lemma print_rows_spec:
  assumes "print_rows nrows ncols pad i rows new_fig num_ax = Inr (fig', num_ax', tens)"
    and "num_ax = n_axes new_fig"
  shows "num_ax' = n_axes fig' \<and> num_ax \<le> num_ax' \<and>
         map (map length) tens = map (map axes_made) rows \<and>
         concat (concat tens) = [num_ax..<num_ax']"
  using assms
proof (induction rows arbitrary: i new_fig num_ax tens)
  case Nil
  then show ?case by auto
next
  case (Cons m ms)
  from Cons.prems(1) obtain fig1 num_ax1 mat tens' where
    s1: "print_row nrows ncols pad i 0 m new_fig num_ax = Inr (fig1, num_ax1, mat)"
    and s2: "print_rows nrows ncols pad (Suc i) ms fig1 num_ax1 = Inr (fig', num_ax', tens')"
    and t: "tens = mat # tens'"
    by (auto simp: bind_err_eq_Inr)
  from print_row_spec[OF s1 Cons.prems(2)] have r: "num_ax1 = n_axes fig1" "num_ax \<le> num_ax1"
    "map length mat = map axes_made m" "concat mat = [num_ax..<num_ax1]" by simp_all
  from Cons.IH[OF s2 r(1)] have ih: "num_ax' = n_axes fig'" "num_ax1 \<le> num_ax'"
    "map (map length) tens' = map (map axes_made) ms" "concat (concat tens') = [num_ax1..<num_ax']"
    by simp_all
  have "concat (concat tens) = [num_ax..<num_ax1] @ [num_ax1..<num_ax']"
    using t r(4) ih(4) by simp
  also have "\<dots> = [num_ax..<num_ax']"
    using r(2) ih(2) by (metis le_Suc_ex upt_add_eq_append)
  finally have "concat (concat tens) = [num_ax..<num_ax']" .
  then show ?case using t r ih by simp
qed

lemma print_into_row_subplots_spec:
  assumes "print_into_row_subplots arr new_fig pad = Inr (fig', tens)" and "n_axes new_fig = 0"
  shows "map (map length) tens = map (map axes_made) (rev (nd_rows arr)) \<and>
         concat (concat (rev tens)) = [0..<n_axes fig']"
proof -
  from assms(1) obtain num_ax' tens0 where
    p: "print_rows (length (nd_rows arr)) (nd_ncols arr) pad 0 (nd_rows arr) new_fig 0
          = Inr (fig', num_ax', tens0)" and t: "tens = rev tens0"
    by (auto simp: print_into_row_subplots_def Let_def bind_err_eq_Inr)
  from print_rows_spec[OF p] assms(2) have "num_ax' = n_axes fig'"
    "map (map length) tens0 = map (map axes_made) (nd_rows arr)"
    "concat (concat tens0) = [0..<num_ax']" by simp_all
  then show ?thesis using t by (simp add: rev_map[symmetric])
qed

lemma chunks_rows:
  assumes "\<forall>row \<in> set xss. length row = k" and "0 < k"
  shows "map (\<lambda>i. take k (drop (i * k) (concat xss))) [0..<length (concat xss) div k] = xss"
  using assms(1)
proof (induction xss)
  case Nil
  then show ?case by simp
next
  case (Cons r rs)
  then have lr: "length r = k" and rest: "\<forall>row \<in> set rs. length row = k" by simp_all
  have len: "length (concat rs) = length rs * k"
    using rest by (induction rs) simp_all
  have d: "length (concat (r # rs)) div k = Suc (length rs)"
    using lr len assms(2) by simp
  have d': "length (concat rs) div k = length rs" using len assms(2) by simp
  have "map (\<lambda>i. take k (drop (i * k) (concat (r # rs)))) [0..<Suc (length rs)]
        = take k (concat (r # rs)) # map (\<lambda>i. take k (drop (Suc i * k) (concat (r # rs)))) [0..<length rs]"
    by (simp add: upt_conv_Cons map_Suc_upt[symmetric] del: upt_Suc)
  also have "take k (concat (r # rs)) = r" using lr by simp
  also have "map (\<lambda>i. take k (drop (Suc i * k) (concat (r # rs)))) [0..<length rs]
           = map (\<lambda>i. take k (drop (i * k) (concat rs))) [0..<length rs]"
    using lr by simp
  finally show ?case using Cons.IH[OF rest] d d' by simp
qed


lemma grid_cells_nonempty:
  assumes "map (map length) tens = map (map axes_made) mat_fig"
    and "\<forall>row \<in> set mat_fig. length row = k" and "0 < k"
  shows "\<forall>mat \<in> set tens. mat \<noteq> [] \<and> (\<forall>c \<in> set mat. c \<noteq> [])"
proof
  fix mat assume "mat \<in> set tens"
  then have "map length mat \<in> set (map (map axes_made) mat_fig)"
    using assms(1) by (metis image_eqI list.set_map)
  then obtain row where row: "row \<in> set mat_fig" "map length mat = map axes_made row" by auto
  then have "length mat = k" using assms(2) by (metis length_map)
  then have "mat \<noteq> []" using assms(3) by auto
  moreover have "\<forall>c \<in> set mat. c \<noteq> []"
  proof
    fix c assume "c \<in> set mat"
    then have "length c \<in> set (map axes_made row)" using row(2) by (metis image_eqI list.set_map)
    then have "0 < length c" by (auto simp: axes_made_def)
    then show "c \<noteq> []" by simp
  qed
  ultimately show "mat \<noteq> [] \<and> (\<forall>c \<in> set mat. c \<noteq> [])" by simp
qed

lemma reshape_regrid: "reshape xs k = Inr arr \<Longrightarrow> nd_rows arr = regrid k xs \<and> nd_ncols arr = k \<and> 0 < k"
  by (auto simp: reshape_def regrid_def split: if_splits)

lemma regrid_rows: "\<forall>row \<in> set xss. length row = k \<Longrightarrow> 0 < k \<Longrightarrow> regrid k (concat xss) = xss"
  unfolding regrid_def by (rule chunks_rows)

lemma regrid_row_length:
  assumes "row \<in> set (regrid k xs)" and "0 < k"
  shows "length row = k"
proof -
  from assms(1) obtain i where i: "i < length xs div k" and row: "row = take k (drop (i * k) xs)"
    by (auto simp: regrid_def)
  have "Suc i * k \<le> (length xs div k) * k" using i by (simp add: Suc_leI mult_le_mono1 del: mult_Suc)
  also have "\<dots> \<le> length xs" by simp
  finally have "i * k + k \<le> length xs" by simp
  then show ?thesis using row by simp
qed

text \<open>
  C4, as amended. When \<open>create_figure\<close> returns, the grid index \<open>tens\<close> has the shape of the
  grid regrouped into rows of \<open>len(list_sites)\<close> figures, which is the input grid when its
  rows have that many figures. The subplot \<open>tens[i][j]\<close> has as many entries as redrawing the
  figure at row \<open>i\<close>, column \<open>j\<close> of the regrouped grid made axes; and the entries number the
  axes of the composed figure in the order in which the figures are redrawn (the rows from
  the last to the first, each row from left to right), so that the subplots are disjoint and
  cover \<open>0 .. len(fig.axes) - 1\<close>.
\<close>

theorem create_figure_grid_index:
  assumes "create_figure mat_fig list_sites pad w = (Inr (fig, tens), w')"
  shows "map (map length) tens
           = map (map axes_made) (regrid (length list_sites) (concat mat_fig)) \<and>
         concat (concat (rev tens)) = [0..<length (f_axes fig)] \<and>
         grid_index (length (f_axes fig)) tens \<and>
         ((\<forall>row \<in> set mat_fig. length row = length list_sites) \<longrightarrow>
            regrid (length list_sites) (concat mat_fig) = mat_fig)"
proof -
  let ?k = "length list_sites"
  from assms obtain flat where flat: "np_array_flat mat_fig = Inr flat"
    by (auto simp: create_figure_def bind_err_eq_Inr split: sum.splits)
  then have fl: "flat = concat mat_fig" by (auto simp: np_array_flat_def split: if_splits)
  from assms flat obtain arr where arr: "reshape (concat mat_fig) ?k = Inr arr"
    by (auto simp: create_figure_def fl split: sum.splits)
  from reshape_regrid[OF arr] have k: "0 < ?k"
    and rows: "nd_rows arr = regrid ?k (concat mat_fig)" by simp_all
  let ?temp = "arr\<lparr>nd_rows := rev (nd_rows arr)\<rparr>"
  define fig0 where "fig0 =
     \<lparr>f_number = next_num w,
      f_size = (real (nd_ncols ?temp) *
                 max_list (map (\<lambda>f. fst (sf_size f)) (map hd (nd_rows ?temp))),
               sum_list (map (\<lambda>f. snd (sf_size f)) (map hd (nd_rows ?temp)))),
      f_axes = [], f_aligned = []\<rparr>"
  have f0: "n_axes fig0 = 0" by (simp add: fig0_def n_axes_def)
  have p: "print_into_row_subplots ?temp fig0 pad = Inr (fig, tens)"
    using assms flat arr
    by (auto simp: create_figure_def Let_def plt_figure_def fig0_def fl split: if_splits)
  from print_into_row_subplots_spec[OF p f0] rows
  have a: "map (map length) tens = map (map axes_made) (regrid ?k (concat mat_fig))"
    and b: "concat (concat (rev tens)) = [0..<length (f_axes fig)]"
    by (simp_all add: n_axes_def)
  have "\<forall>row \<in> set (regrid ?k (concat mat_fig)). length row = ?k"
    using regrid_row_length k by blast
  from grid_cells_nonempty[OF a this k] b
  have "grid_index (length (f_axes fig)) tens" by (simp add: grid_index_def)
  with a b regrid_rows k show ?thesis by blast
qed

lemma create_figure_two_rows:
  "\<exists>fig. create_figure [[fig_plain], [fig_twinx]] [''a''] (3 / 100) world0 =
      (Inr (fig, [[[2]], [[0, 1]]]), \<lparr>w_fignums = [1], w_warnings = 0, w_files = []\<rparr>)"
  by (simp add: library_calls layout_calls example_figures Let_def upt_small cong: eval_congs)

theorem create_figure_grid_index_witness:
  "\<exists>fig. create_figure [[fig_plain], [fig_twinx]] [''a''] (3 / 100) world0 =
            (Inr (fig, [[[2]], [[0, 1]]]), \<lparr>w_fignums = [1], w_warnings = 0, w_files = []\<rparr>) \<and>
          map (map length) ([[[2]], [[0, 1]]] :: tens)
            = map (map axes_made) (regrid (length [''a'']) (concat [[fig_plain], [fig_twinx]])) \<and>
          concat (concat (rev [[[2]], [[0, 1]]])) = [0..<length (f_axes fig)] \<and>
          grid_index (length (f_axes fig)) [[[2]], [[0, 1]]] \<and>
          regrid (length [''a'']) (concat [[fig_plain], [fig_twinx]]) = [[fig_plain], [fig_twinx]]"
proof -
  from create_figure_two_rows obtain fig where
    c: "create_figure [[fig_plain], [fig_twinx]] [''a''] (3 / 100) world0 =
          (Inr (fig, [[[2]], [[0, 1]]]), \<lparr>w_fignums = [1], w_warnings = 0, w_files = []\<rparr>)"
    by blast
  from create_figure_grid_index[OF c] c show ?thesis by auto
qed

text \<open>
  C4 as stated fails when the rows of the grid do not have \<open>len(list_sites)\<close> figures: a grid
  of one row of two figures with one label is redrawn as two rows of one figure, and the grid
  index has two rows of one subplot.
\<close>

theorem create_figure_regroups:
  "map_sum id snd (fst (create_figure [[fig_plain, fig_plain]] [''a''] (3 / 100) world0))
     = Inr [[[1]], [[0]]] \<and>
   map length [[fig_plain, fig_plain]] = [2] \<and>
   map length ([[[1]], [[0]]] :: tens) = [1, 1]"
  by (simp add: library_calls layout_calls example_figures Let_def upt_small div_Suc mod_Suc
           cong: eval_congs)

section \<open>What a call leaves behind for the next call\<close>

text \<open>
  No function of \<open>layout.py\<close> and no call of the library that it makes reads the number of
  the figure: each of them, run on the figure under another number, gives the same figure
  under that number.
\<close>


lemma renumber_fields [simp]:
  "f_axes (renumber n fig) = f_axes fig"
  "f_size (renumber n fig) = f_size fig"
  "f_aligned (renumber n fig) = f_aligned fig"
  "f_number (renumber n fig) = n"
  "renumber n (renumber m fig) = renumber n fig"
  by (simp_all add: renumber_def)

lemma renumber_update [simp]:
  "(renumber n fig)\<lparr>f_axes := axs\<rparr> = renumber n (fig\<lparr>f_axes := axs\<rparr>)"
  "(renumber n fig)\<lparr>f_aligned := al\<rparr> = renumber n (fig\<lparr>f_aligned := al\<rparr>)"
  by (simp_all add: renumber_def)

lemma renumbered_simps [simp]:
  "renumbered n (Inl e) = Inl e"
  "renumbered n (Inr fig) = Inr (renumber n fig)"
  by (simp_all add: renumbered_def)

lemma renumbered_if: "renumbered n (if c then a else b) = (if c then renumbered n a else renumbered n b)"
  by simp

lemma bind_renumbered [simp]:
  "bind_err (renumbered n r) g = bind_err r (\<lambda>fig. g (renumber n fig))"
  by (cases r) simp_all

lemma bind_err_renumbered [simp]:
  "bind_err r (\<lambda>x. renumbered n (g x)) = renumbered n (bind_err r g)"
  by (cases r) simp_all

lemma bind_err_Inr_renumber [simp]:
  "bind_err r (\<lambda>x. Inr (renumber n (g x))) = renumbered n (bind_err r (\<lambda>x. Inr (g x)))"
  by (cases r) simp_all

lemma renumber_library [simp]:
  "upd_axes (renumber n fig) k f = renumber n (upd_axes fig k f)"
  "upd_shared grp (renumber n fig) k f = renumber n (upd_shared grp fig k f)"
  "set_position (renumber n fig) k pos = renumber n (set_position fig k pos)"
  by (simp_all add: upd_axes_def upd_shared_def set_position_def)

lemma renumber_setters [simp]:
  "set_xlim (renumber n fig) k lm = renumber n (set_xlim fig k lm)"
  "set_ylim (renumber n fig) k lm = renumber n (set_ylim fig k lm)"
  "set_xlocator (renumber n fig) k loc = renumber n (set_xlocator fig k loc)"
  "set_xformatter (renumber n fig) k fm = renumber n (set_xformatter fig k fm)"
  "set_yformatter (renumber n fig) k fm = renumber n (set_yformatter fig k fm)"
  "set_xticks (renumber n fig) k ts = renumber n (set_xticks fig k ts)"
  "add_artist (renumber n fig) k a = renumber n (add_artist fig k a)"
  "add_collection (renumber n fig) k c = renumber n (add_collection fig k c)"
  "axhline (renumber n fig) k y col ls lw al lab = renumber n (axhline fig k y col ls lw al lab)"
  "axvline (renumber n fig) k y col ls lw al lab = renumber n (axvline fig k y col ls lw al lab)"
  "vlines (renumber n fig) k x y0 y1 rg ls lw al lab = renumber n (vlines fig k x y0 y1 rg ls lw al lab)"
  "bar (renumber n fig) k x h wd rg ed lw ls al = renumber n (bar fig k x h wd rg ed lw ls al)"
  "legend (renumber n fig) k hs labs = renumber n (legend fig k hs labs)"
  "remove_legend (renumber n fig) k = renumber n (remove_legend fig k)"
  by (simp_all add: set_xlim_def set_ylim_def set_xlocator_def set_xformatter_def
        set_yformatter_def set_xticks_def add_artist_def add_collection_def axhline_def
        axvline_def vlines_def bar_def legend_def remove_legend_def Let_def)

lemma renumber_fallible [simp]:
  "set_xticklabels (renumber n fig) k labs = renumbered n (set_xticklabels fig k labs)"
  "plot (renumber n fig) k xs ys lab col ls = renumbered n (plot fig k xs ys lab col ls)"
  "axhline_kw_x (renumber n fig) k y col ls lw al lab = renumbered n (axhline_kw_x fig k y col ls lw al lab)"
  "fill_between (renumber n fig) k x y1 y2 rg al = renumbered n (fill_between fig k x y1 y2 rg al)"
  "scatter (renumber n fig) k pts s c ec al slab = renumbered n (scatter fig k pts s c ec al slab)"
  by (simp_all add: set_xticklabels_def plot_def axhline_kw_x_def fill_between_def scatter_def
        Let_def split: locator.splits option.splits)

lemma renumber_twins [simp]:
  "twinx (renumber n fig) k = map_prod (renumber n) id (twinx fig k)"
  "twiny (renumber n fig) k = map_prod (renumber n) id (twiny fig k)"
  by (simp_all add: twinx_def twiny_def Let_def)

lemma renumber_add_subplot [simp]:
  "add_subplot (renumber n fig) nrows ncols num
     = map_sum id (map_prod (renumber n) id) (add_subplot fig nrows ncols num)"
  by (simp add: add_subplot_def)


lemma renumber_sharing_axis [simp]:
  "sharing_axis (renumber n fig) new_ax_og old_fig i
     = map_sum id (map_prod (renumber n) id) (sharing_axis fig new_ax_og old_fig i)"
  by (simp add: sharing_axis_def Let_def split: prod.splits option.splits)

lemma renumber_recover_line [simp]:
  "recover_line line (renumber n fig) new_ax = renumbered n (recover_line line fig new_ax)"
  by (simp add: recover_line_def Let_def)

lemma renumber_recover_lines [simp]:
  "recover_lines ls (renumber n fig) new_ax = renumbered n (recover_lines ls fig new_ax)"
  by (induction ls arbitrary: fig) simp_all

lemma renumber_hv_segment [simp]:
  "hv_segment coll xlim ylim i seg (renumber n fig) new_ax
     = renumbered n (hv_segment coll xlim ylim i seg fig new_ax)"
  by (cases "unpack_seg seg") (auto simp: hv_segment_def Let_def)

lemma renumber_hv_segments [simp]:
  "hv_segments coll xlim ylim i segs (renumber n fig) new_ax
     = renumbered n (hv_segments coll xlim ylim i segs fig new_ax)"
  by (induction segs arbitrary: fig i) simp_all

lemma renumber_hv_collections [simp]:
  "hv_collections cs xlim ylim (renumber n fig) new_ax
     = renumbered n (hv_collections cs xlim ylim fig new_ax)"
  by (induction cs arbitrary: fig) simp_all

lemma renumber_eb_segment [simp]:
  "eb_segment coll i seg (renumber n fig) new_ax = renumbered n (eb_segment coll i seg fig new_ax)"
  by (cases "unpack_seg seg") (auto simp: eb_segment_def Let_def)

lemma renumber_eb_segments [simp]:
  "eb_segments coll i segs (renumber n fig) new_ax
     = renumbered n (eb_segments coll i segs fig new_ax)"
  by (induction segs arbitrary: fig i) simp_all

lemma renumber_eb_collections [simp]:
  "eb_collections cs (renumber n fig) new_ax = renumbered n (eb_collections cs fig new_ax)"
  by (induction cs arbitrary: fig) simp_all

lemma renumber_fill_path [simp]:
  "fill_path poly verts (renumber n fig) new_ax = renumbered n (fill_path poly verts fig new_ax)"
  by (simp add: fill_path_def Let_def split: list.splits)

lemma renumber_fill_paths [simp]:
  "fill_paths poly ps (renumber n fig) new_ax = renumbered n (fill_paths poly ps fig new_ax)"
  by (induction ps arbitrary: fig) simp_all

lemma renumber_fill_polys [simp]:
  "fill_polys ps (renumber n fig) new_ax = renumbered n (fill_polys ps fig new_ax)"
  by (induction ps arbitrary: fig) simp_all

lemma renumber_recover_one_scatter [simp]:
  "recover_one_scatter sc (renumber n fig) new_ax
     = renumbered n (recover_one_scatter sc fig new_ax)"
  by (simp add: recover_one_scatter_def)

lemma renumber_recover_scatters [simp]:
  "recover_scatters scs (renumber n fig) new_ax = renumbered n (recover_scatters scs fig new_ax)"
  by (induction scs arbitrary: fig) simp_all

lemma renumber_replot_bars [simp]:
  "replot_bars bs (renumber n fig) new_ax = map_prod (renumber n) id (replot_bars bs fig new_ax)"
  by (induction bs arbitrary: fig) (simp_all add: Let_def split: prod.splits)

lemma renumber_set_bar_label [simp]:
  "set_bar_label (renumber n fig) new_ax nb lab = renumber n (set_bar_label fig new_ax nb lab)"
  by (simp add: set_bar_label_def)

lemma renumber_bar_facecolor [simp]:
  "bar_facecolor (renumber n fig) new_ax ci = bar_facecolor fig new_ax ci"
  by (simp add: bar_facecolor_def)

lemma renumber_label_first [simp]:
  "label_first bars fc lab (renumber n fig) new_ax = renumbered n (label_first bars fc lab fig new_ax)"
  by (induction bars) (auto split: option.splits)

lemma renumber_label_bars [simp]:
  "label_bars hs new_bars (renumber n fig) new_ax = renumbered n (label_bars hs new_bars fig new_ax)"
  by (induction hs arbitrary: fig) auto

lemma renumber_recover [simp]:
  "recover_Line2D old_ax (renumber n fig) new_ax = renumbered n (recover_Line2D old_ax fig new_ax)"
  "recover_hlines_vlines old_ax (renumber n fig) new_ax
     = renumbered n (recover_hlines_vlines old_ax fig new_ax)"
  "recover_errorbars old_ax (renumber n fig) new_ax
     = renumbered n (recover_errorbars old_ax fig new_ax)"
  "recover_fill_between old_ax (renumber n fig) new_ax
     = renumbered n (recover_fill_between old_ax fig new_ax)"
  "recover_scatter old_ax (renumber n fig) new_ax
     = renumbered n (recover_scatter old_ax fig new_ax)"
  "recover_barplot old_ax (renumber n fig) new_ax
     = renumbered n (recover_barplot old_ax fig new_ax)"
  "recover_axis_formatting old_ax (renumber n fig) new_ax
     = renumbered n (recover_axis_formatting old_ax fig new_ax)"
  "recover_axis_position old_ax (renumber n fig) new_ax
     = renumber n (recover_axis_position old_ax fig new_ax)"
  "recover_legend old_ax (renumber n fig) new_ax = renumber n (recover_legend old_ax fig new_ax)"
  by (simp_all add: recover_Line2D_def recover_hlines_vlines_def recover_errorbars_def
        recover_fill_between_def recover_scatter_def recover_barplot_def
        recover_axis_formatting_def recover_axis_position_def recover_legend_def Let_def
        split: prod.splits)

lemma renumber_replot_axis [simp]:
  "replot_axis old_fig i (renumber n fig) new_ax_og
     = renumbered n (replot_axis old_fig i fig new_ax_og)"
  by (cases "sharing_axis fig new_ax_og old_fig i") (auto simp: replot_axis_def Let_def)

lemma renumber_replot_axes [simp]:
  "replot_axes old_fig ixs (renumber n fig) new_ax_og
     = renumbered n (replot_axes old_fig ixs fig new_ax_og)"
  by (induction ixs arbitrary: fig) simp_all

lemma renumber_plot_same_new_figure [simp]:
  "plot_same_new_figure old_fig (renumber n fig) new_ax_og
     = renumbered n (plot_same_new_figure old_fig fig new_ax_og)"
  by (simp add: plot_same_new_figure_def)


lemma renumber_fold:
  assumes "\<And>x fg. f x (renumber n fg) = renumber n (f x fg)"
  shows "fold f xs (renumber n fig) = renumber n (fold f xs fig)"
  by (induction xs arbitrary: fig) (simp_all add: assms)

lemma renumber_print_row [simp]:
  "print_row nrows ncols pad i j fs (renumber n fig) num_ax
     = map_sum id (map_prod (renumber n) id) (print_row nrows ncols pad i j fs fig num_ax)"
proof (induction fs arbitrary: fig j num_ax)
  case Nil
  show ?case by simp
next
  case (Cons f fs)
  show ?case
  proof (cases "add_subplot fig nrows ncols (i * ncols + j + 1)")
    case (Inl e)
    then show ?thesis by simp
  next
    case (Inr p)
    obtain fig1 ax where p: "p = (fig1, ax)" by (cases p)
    show ?thesis
    proof (cases "plot_same_new_figure f fig1 ax")
      case (Inl e)
      then show ?thesis using Inr p by simp
    next
      case fig2: (Inr fig2)
      let ?vec = "[num_ax..<num_ax + (length (f_axes fig2) - num_ax)]"
      let ?fig3 = "fold (\<lambda>n fg. set_position fg n (cell_position nrows ncols pad i j)) ?vec fig2"
      have f3: "fold (\<lambda>n fg. set_position fg n (cell_position nrows ncols pad i j)) ?vec
                  (renumber n fig2) = renumber n ?fig3"
        by (rule renumber_fold) simp
      show ?thesis
        using Inr p fig2
        by (cases "print_row nrows ncols pad i (Suc j) fs ?fig3 (length (f_axes ?fig3))")
           (auto simp: Let_def f3 Cons.IH)
    qed
  qed
qed

lemma renumber_print_rows [simp]:
  "print_rows nrows ncols pad i ms (renumber n fig) num_ax
     = map_sum id (map_prod (renumber n) id) (print_rows nrows ncols pad i ms fig num_ax)"
proof (induction ms arbitrary: fig i num_ax)
  case Nil
  show ?case by simp
next
  case (Cons m ms)
  show ?case
  proof (cases "print_row nrows ncols pad i 0 m fig num_ax")
    case (Inl e)
    then show ?thesis by simp
  next
    case (Inr p)
    obtain fig1 num_ax1 mat where p: "p = (fig1, num_ax1, mat)" by (cases p)
    show ?thesis using Inr p
      by (cases "print_rows nrows ncols pad (Suc i) ms fig1 num_ax1") (auto simp: Cons.IH)
  qed
qed

lemma renumber_print_into_row_subplots [simp]:
  "print_into_row_subplots temp (renumber n fig) pad
     = map_sum id (map_prod (renumber n) id) (print_into_row_subplots temp fig pad)"
  by (cases "print_rows (length (nd_rows temp)) (nd_ncols temp) pad 0 (nd_rows temp) fig 0")
     (auto simp: print_into_row_subplots_def Let_def)

lemma renumber_drop_legend [simp]:
  "drop_legend (renumber n fig) k = renumber n (drop_legend fig k)"
  by (simp add: drop_legend_def)

lemma renumber_legends_axes [simp]:
  "legends_axes ks mat hs ls (renumber n fig) = renumber n (legends_axes ks mat hs ls fig)"
  by (induction ks arbitrary: fig hs ls) (simp_all add: Let_def split: prod.splits)

lemma renumber_legends_mat [simp]:
  "legends_mat mat (renumber n fig) = renumbered n (legends_mat mat fig)"
  by (simp add: legends_mat_def Let_def)

lemma renumber_legends_only_last_subplot [simp]:
  "legends_only_last_subplot (renumber n fig) tens
     = renumbered n (legends_only_last_subplot fig tens)"
  by (induction tens arbitrary: fig) simp_all

lemma renumber_clear_ylabel [simp]:
  "clear_ylabel (renumber n fig) j = renumbered n (clear_ylabel fig j)"
  by (simp add: clear_ylabel_def)

lemma renumbered_if_Inr:
  "(if c then clear_ylabel (renumber n fig) j else Inr (renumber n fig))
     = renumbered n (if c then clear_ylabel fig j else Inr fig)"
  by simp

lemma renumber_labels_cell [simp]:
  "labels_cell len_mat row num_ax js (renumber n fig)
     = renumbered n (labels_cell len_mat row num_ax js fig)"
  by (induction js arbitrary: fig num_ax) (simp_all add: renumbered_if_Inr split del: if_split)

lemma renumber_labels_mat [simp]:
  "labels_mat len_mat row cells (renumber n fig) = renumbered n (labels_mat len_mat row cells fig)"
  by (induction cells arbitrary: fig row) simp_all

lemma renumber_labels_only_last_subplot [simp]:
  "labels_only_last_subplot (renumber n fig) tens
     = renumbered n (labels_only_last_subplot fig tens)"
  by (induction tens arbitrary: fig) simp_all

lemma renumber_set_ylims_loop [simp]:
  "set_ylims_loop ks lm (renumber n fig) = renumbered n (set_ylims_loop ks lm fig)"
  by (induction ks arbitrary: fig) simp_all

lemma renumber_ylims_col [simp]:
  "ylims_col mat j (renumber n fig) = renumbered n (ylims_col mat j fig)"
  by (simp add: ylims_col_def Let_def)

lemma renumber_ylims_cols [simp]:
  "ylims_cols mat js (renumber n fig) = renumbered n (ylims_cols mat js fig)"
  by (induction js arbitrary: fig) simp_all

lemma renumber_set_common_ylims [simp]:
  "set_common_ylims (renumber n fig) tens = renumbered n (set_common_ylims fig tens)"
proof (induction tens arbitrary: fig)
  case Nil
  show ?case by simp
next
  case (Cons mat ms)
  show ?case by (cases "np_shape1 mat") (simp_all add: Cons.IH)
qed

lemma renumber_sharex_axis [simp]:
  "sharex_axis lm i (renumber n fig) = renumber n (sharex_axis lm i fig)"
  by (simp add: sharex_axis_def)

lemma renumber_sharex_rows [simp]:
  "sharex_rows (renumber n fig) tens = renumbered n (sharex_rows fig tens)"
proof -
  have "fold (\<lambda>(row, lm) fg. fold (sharex_axis lm) row fg) xs (renumber n fig)
          = renumber n (fold (\<lambda>(row, lm) fg. fold (sharex_axis lm) row fg) xs fig)" for xs
    by (rule renumber_fold) (auto intro: renumber_fold)
  then show ?thesis by (simp add: sharex_rows_def Let_def)
qed

lemma renumber_sharex_cols [simp]:
  "sharex_cols (renumber n fig) tens = renumbered n (sharex_cols fig tens)"
  by (simp add: sharex_cols_def)

lemma renumber_set_common_xlims [simp]:
  "set_common_xlims (renumber n fig) tens sharex = renumbered n (set_common_xlims fig tens sharex)"
  by (simp add: set_common_xlims_def)

lemma renumber_add_column_titles [simp]:
  "add_column_titles (renumber n fig) tens list_sites
     = renumbered n (add_column_titles fig tens list_sites)"
proof -
  have "fold (\<lambda>(k, col) fg. upd_axes fg k (\<lambda>ax. ax\<lparr>a_title := col, a_title_fontsize := Some 20\<rparr>))
          xs (renumber n fig)
        = renumber n (fold (\<lambda>(k, col) fg. upd_axes fg k
                              (\<lambda>ax. ax\<lparr>a_title := col, a_title_fontsize := Some 20\<rparr>)) xs fig)"
    for xs
    by (rule renumber_fold) auto
  then show ?thesis by (simp add: add_column_titles_def axes_at_def)
qed

lemma renumber_fig_align_ylabels [simp]:
  "fig_align_ylabels (renumber n fig) axs = renumber n (fig_align_ylabels fig axs)"
  by (simp add: fig_align_ylabels_def)

lemma renumber_align_ylabels [simp]:
  "align_ylabels (renumber n fig) tens = renumbered n (align_ylabels fig tens)"
  by (simp add: align_ylabels_def axes_at_def Let_def fig_align_ylabels_def)


lemma world_unchanged:
  "w\<lparr>w_warnings := w_warnings w + 0, w_fignums := w_fignums w @ [], w_files := w_files w @ []\<rparr> = w"
  by simp

lemma plt_figure_world:
  "plt_figure figsize w =
     (if fst figsize < 0 \<or> snd figsize < 0 then Inl ValueError
      else Inr (renumber (next_num w)
                  \<lparr>f_number = 0, f_size = figsize, f_axes = [], f_aligned = []\<rparr>),
      w\<lparr>w_warnings := w_warnings w + (if length (w_fignums w) = max_open_warning then 1 else 0),
        w_fignums := w_fignums w @ (if fst figsize < 0 \<or> snd figsize < 0 then [] else [next_num w])\<rparr>)"
  by (simp add: plt_figure_def renumber_def Let_def)

lemma create_figure_world:
  "\<exists>res warns opens. \<forall>w.
     create_figure mat_fig list_sites pad w =
       (map_sum id (map_prod (renumber (next_num w)) id) res,
        w\<lparr>w_warnings := w_warnings w
             + (if warns \<and> length (w_fignums w) = max_open_warning then 1 else 0),
          w_fignums := w_fignums w @ (if opens then [next_num w] else [])\<rparr>)"
proof (cases "bind_err (np_array_flat mat_fig) (\<lambda>flat. reshape flat (length list_sites))")
  case (Inl e)
  then have "\<forall>w. create_figure mat_fig list_sites pad w =
       (map_sum id (map_prod (renumber (next_num w)) id) (Inl e),
        w\<lparr>w_warnings := w_warnings w
             + (if False \<and> length (w_fignums w) = max_open_warning then 1 else 0),
          w_fignums := w_fignums w @ (if False then [next_num w] else [])\<rparr>)"
    by (simp add: create_figure_def)
  then show ?thesis by blast
next
  case (Inr arr)
  let ?temp = "arr\<lparr>nd_rows := rev (nd_rows arr)\<rparr>"
  let ?firsts = "map hd (nd_rows ?temp)"
  let ?size = "(real (nd_ncols ?temp) * max_list (map (\<lambda>f. fst (sf_size f)) ?firsts),
               sum_list (map (\<lambda>f. snd (sf_size f)) ?firsts))"
  show ?thesis
  proof (cases "?firsts = []")
    case True
    with Inr have "\<forall>w. create_figure mat_fig list_sites pad w =
       (map_sum id (map_prod (renumber (next_num w)) id) (Inl ValueError),
        w\<lparr>w_warnings := w_warnings w
             + (if False \<and> length (w_fignums w) = max_open_warning then 1 else 0),
          w_fignums := w_fignums w @ (if False then [next_num w] else [])\<rparr>)"
      by (simp add: create_figure_def)
    then show ?thesis by blast
  next
    case False
    show ?thesis
    proof (cases "fst ?size < 0 \<or> snd ?size < 0")
      case True
      with Inr False have "\<forall>w. create_figure mat_fig list_sites pad w =
         (map_sum id (map_prod (renumber (next_num w)) id) (Inl ValueError),
          w\<lparr>w_warnings := w_warnings w
               + (if True \<and> length (w_fignums w) = max_open_warning then 1 else 0),
            w_fignums := w_fignums w @ (if False then [next_num w] else [])\<rparr>)"
        by (simp add: create_figure_def plt_figure_world Let_def)
      then show ?thesis by blast
    next
      case pos: False
      let ?base = "\<lparr>f_number = 0, f_size = ?size, f_axes = [], f_aligned = []\<rparr>"
      from Inr False pos have "\<forall>w. create_figure mat_fig list_sites pad w =
         (map_sum id (map_prod (renumber (next_num w)) id)
            (print_into_row_subplots ?temp ?base pad),
          w\<lparr>w_warnings := w_warnings w
               + (if True \<and> length (w_fignums w) = max_open_warning then 1 else 0),
            w_fignums := w_fignums w @ (if True then [next_num w] else [])\<rparr>)"
        by (simp add: create_figure_def plt_figure_world Let_def)
      then show ?thesis by blast
    qed
  qed
qed

lemma passes_renumber:
  "bind_err (legends_only_last_subplot (renumber n fig) tens) (\<lambda>fig.
     bind_err (labels_only_last_subplot fig tens) (\<lambda>fig.
     bind_err (set_common_ylims fig tens) (\<lambda>fig.
     bind_err (set_common_xlims fig tens sharex) (\<lambda>fig.
     bind_err (add_column_titles fig tens list_sites) (\<lambda>fig.
       align_ylabels fig tens)))))
   = renumbered n
      (bind_err (legends_only_last_subplot fig tens) (\<lambda>fig.
       bind_err (labels_only_last_subplot fig tens) (\<lambda>fig.
       bind_err (set_common_ylims fig tens) (\<lambda>fig.
       bind_err (set_common_xlims fig tens sharex) (\<lambda>fig.
       bind_err (add_column_titles fig tens list_sites) (\<lambda>fig.
         align_ylabels fig tens))))))"
  by simp


lemma master_plot_plain:
  "\<exists>fig. f_number fig = 1 \<and>
     master_plot [[fig_plain]] [''a''] (3 / 100) save_plots (SharexBool False) world0 =
      (Inr (fig, [[[0]]]),
       \<lparr>w_fignums = [1], w_warnings = 0, w_files = files_written save_plots fig\<rparr>)"
  by (cases save_plots)
     (simp_all add: library_calls layout_calls example_figures upt_small Let_def master_plot_def
        files_written_def cong: eval_congs)

lemma master_plot_plain_again:
  "\<exists>fig. f_number fig = 2 \<and>
     master_plot [[fig_plain]] [''a''] (3 / 100) None (SharexBool False)
       \<lparr>w_fignums = [1], w_warnings = 0, w_files = []\<rparr> =
      (Inr (fig, [[[0]]]), \<lparr>w_fignums = [1, 2], w_warnings = 0, w_files = []\<rparr>)"
  by (simp add: library_calls layout_calls example_figures upt_small Let_def master_plot_def
        files_written_def cong: eval_congs)



end
